theory Spec2Isabelle
  imports Complex_Main "HOL-Library.Sublist" "HOL-Library.Multiset"
begin

section \<open>Numbers and built-ins of the host language\<close>

text \<open>
  The program is JavaScript. Counters, qualities, intervals and timestamps (milliseconds since
  the epoch) are modelled as \<^typ>\<open>int\<close>, ease factors, response times and scores as
  \<^typ>\<open>real\<close>: arithmetic is exact, the rounding of IEEE doubles is not modelled.
  \<open>Math.round\<close> rounds to the nearest integer, a tie towards plus infinity.
\<close>

definition Math_round :: "real \<Rightarrow> int" where
  "Math_round x = \<lfloor>x + 1 / 2\<rfloor>"

text \<open>
  \<open>array.slice(0, end)\<close>: a negative \<open>end\<close> counts from the end of the array.
\<close>

definition slice0 :: "'a list \<Rightarrow> int \<Rightarrow> 'a list" where
  "slice0 xs e = (if e < 0 then take (nat (int (length xs) + e)) xs else take (nat e) xs)"

text \<open>
  Failures. A request to a store can fail (\<open>request.onerror\<close> rejects the promise of
  the read), and a call of something that is no function throws a \<open>TypeError\<close>. A
  function that can fail returns \<open>error + 'a\<close>, with \<open>Inl\<close> the error.

  An \<open>async\<close> function returns a promise at once; the promise is fulfilled with the value
  that the body returns, or rejected with the error that it throws. The model runs the body
  to its end, so a promise carries its outcome, which the caller reads with \<open>await\<close>.
  Used as a condition without \<open>await\<close>, a promise is an object, and every object is
  truthy.
\<close>

datatype error = StoreError | TypeError

datatype 'a promise = Promise "error + 'a"

fun await :: "'a promise \<Rightarrow> error + 'a" where
  "await (Promise outcome) = outcome"

fun ToBoolean :: "'a promise \<Rightarrow> bool" where
  "ToBoolean (Promise outcome) = True"

section \<open>The retention model (js/learning/sm2.js)\<close>

abbreviation (input) COMPLETE_BLACKOUT :: int where "COMPLETE_BLACKOUT \<equiv> 0"
abbreviation (input) INCORRECT :: int where "INCORRECT \<equiv> 1"
abbreviation (input) INCORRECT_EASY_RECALL :: int where "INCORRECT_EASY_RECALL \<equiv> 2"
abbreviation (input) CORRECT_DIFFICULTY :: int where "CORRECT_DIFFICULTY \<equiv> 3"
abbreviation (input) CORRECT :: int where "CORRECT \<equiv> 4"
abbreviation (input) PERFECT :: int where "PERFECT \<equiv> 5"

text \<open>
  \<open>averageTimeMs || 3000\<close>: the average is a number, and the only falsy number of the model
  is zero.
\<close>

definition responseToQuality :: "bool \<Rightarrow> real \<Rightarrow> real \<Rightarrow> int" where
  "responseToQuality isCorrect responseTimeMs averageTimeMs =
     (if \<not> isCorrect then (if responseTimeMs < 3000 then INCORRECT else COMPLETE_BLACKOUT)
      else
        let timeFactor = responseTimeMs / (if averageTimeMs = 0 then 3000 else averageTimeMs)
        in if timeFactor < 0.5 then PERFECT
           else if timeFactor < 1.0 then CORRECT
           else CORRECT_DIFFICULTY)"

record sm2_result =
  sm2_easeFactor :: real
  sm2_interval :: int
  sm2_repetitions :: int

definition calculateSM2 :: "int \<Rightarrow> real \<Rightarrow> int \<Rightarrow> int \<Rightarrow> sm2_result" where
  "calculateSM2 quality easeFactor interval repetitions =
     (let newEF = easeFactor
            + (0.1 - (5 - real_of_int quality) * (0.08 + (5 - real_of_int quality) * 0.02));
          newEF = max 1.3 newEF
      in if quality < 3
         then \<lparr>sm2_easeFactor = newEF, sm2_interval = 1, sm2_repetitions = 0\<rparr>
         else
           let newReps = repetitions + 1;
               newInterval =
                 (if newReps = 1 then 1
                  else if newReps = 2 then 6
                  else Math_round (real_of_int interval * newEF))
           in \<lparr>sm2_easeFactor = newEF, sm2_interval = newInterval, sm2_repetitions = newReps\<rparr>)"

text \<open>
  One record of the store \<open>signProgress\<close>. Dates are timestamps; \<open>lastAttemptDate\<close> is
  \<open>null\<close> and \<open>lastQuality\<close> is absent until the first answer.
\<close>

record progress =
  signId :: string
  category :: string
  totalAttempts :: int
  correctAttempts :: int
  easeFactor :: real
  interval :: int
  repetitions :: int
  nextReviewDate :: int
  lastAttemptDate :: "int option"
  averageResponseTime :: real
  lastQuality :: "int option"

text \<open>
  \<open>getNextReviewDate\<close> adds calendar days to the current date; a day is taken as
  86400000 ms. The current time is the parameter \<open>now\<close>.
\<close>

definition getNextReviewDate :: "int \<Rightarrow> int \<Rightarrow> int" where
  "getNextReviewDate now intervalDays = now + intervalDays * 86400000"

text \<open>
  \<open>updateWithSM2\<close> reads the record of the sign from the store, creates the default one
  when there is none, updates it and writes it back under its key \<open>signId\<close>. The store is
  a map from keys to records; the function returns the new store and the record.
  When \<open>totalAttempts\<close> is zero after the increment, the source divides by zero; no record
  written by this function has a negative counter.
\<close>

definition updateWithSM2 ::
  "int \<Rightarrow> (string \<rightharpoonup> progress) \<Rightarrow> string \<Rightarrow> string \<Rightarrow> bool \<Rightarrow> real
     \<Rightarrow> (string \<rightharpoonup> progress) \<times> progress" where
  "updateWithSM2 now store sid cat isCorrect responseTimeMs =
     (let p0 = (case store sid of
                  Some p \<Rightarrow> p
                | None \<Rightarrow>
                    \<lparr>signId = sid, category = cat, totalAttempts = 0, correctAttempts = 0,
                     easeFactor = 2.5, interval = 0, repetitions = 0, nextReviewDate = now,
                     lastAttemptDate = None, averageResponseTime = 3000, lastQuality = None\<rparr>);
          quality = responseToQuality isCorrect responseTimeMs (averageResponseTime p0);
          sm2Result = calculateSM2 quality (easeFactor p0) (interval p0) (repetitions p0);
          p1 = p0\<lparr>totalAttempts := totalAttempts p0 + 1, lastAttemptDate := Some now\<rparr>;
          prevTotal = averageResponseTime p1 * real_of_int (totalAttempts p1 - 1);
          p2 = p1\<lparr>averageResponseTime :=
                    (prevTotal + responseTimeMs) / real_of_int (totalAttempts p1)\<rparr>;
          p3 = (if isCorrect then p2\<lparr>correctAttempts := correctAttempts p2 + 1\<rparr> else p2);
          p4 = p3\<lparr>easeFactor := sm2_easeFactor sm2Result,
                  interval := sm2_interval sm2Result,
                  repetitions := sm2_repetitions sm2Result,
                  nextReviewDate := getNextReviewDate now (sm2_interval sm2Result),
                  lastQuality := Some quality\<rparr>
      in (store(signId p4 \<mapsto> p4), p4))"

text \<open>
  \<open>getRetentionScore\<close>: \<open>!progress\<close> is the case \<open>None\<close>.
\<close>

definition getRetentionScore :: "progress option \<Rightarrow> int" where
  "getRetentionScore progress =
     (case progress of
        None \<Rightarrow> 0
      | Some p \<Rightarrow>
          if totalAttempts p = 0 then 0
          else
            let accuracy = real_of_int (correctAttempts p) / real_of_int (totalAttempts p);
                efFactor = (easeFactor p - 1.3) / (2.5 - 1.3);
                repsFactor = min 1 (real_of_int (repetitions p) / 5)
            in Math_round ((accuracy * 0.5 + efFactor * 0.3 + repsFactor * 0.2) * 100))"

definition isDueForReview :: "int \<Rightarrow> progress option \<Rightarrow> bool" where
  "isDueForReview now progress =
     (case progress of None \<Rightarrow> True | Some p \<Rightarrow> nextReviewDate p \<le> now)"

section \<open>Question helpers (js/quiz/question-types.js)\<close>

text \<open>
  A sign of the catalogue. \<open>difficulty\<close> may be missing; \<open>category\<close> is the key of
  the category, which \<open>selectQuizSigns\<close> writes into its copy of the sign (the display fields
  \<open>categoryName\<close>, \<open>categoryCode\<close>, \<open>categoryColor\<close> and \<open>img\<close> are left out).
\<close>

record sign =
  sign_id :: string
  sign_name :: string
  sign_difficulty :: "int option"
  sign_category :: string

text \<open>
  \<open>shuffleArray\<close> is the Fisher-Yates loop \<open>for (i = arr.length - 1; i > 0; i--)\<close> on a
  copy of the array. \<open>random k\<close> is the value of the \<open>k\<close>-th call of
  \<open>Math.random()\<close>, a number in \<open>[0, 1)\<close>; the loop body swaps \<open>arr[i]\<close> and
  \<open>arr[j]\<close> for \<open>j = Math.floor(random * (i + 1))\<close>.
\<close>

fun shuffle_loop :: "(nat \<Rightarrow> real) \<Rightarrow> nat \<Rightarrow> nat \<Rightarrow> 'a list \<Rightarrow> 'a list" where
  "shuffle_loop random k 0 arr = arr"
| "shuffle_loop random k (Suc i') arr =
     (let i = Suc i';
          j = nat \<lfloor>random k * real (i + 1)\<rfloor>
      in shuffle_loop random (Suc k) i' (arr[i := arr ! j, j := arr ! i]))"

definition shuffleArray :: "(nat \<Rightarrow> real) \<Rightarrow> 'a list \<Rightarrow> 'a list" where
  "shuffleArray random array = shuffle_loop random 0 (length array - 1) array"

text \<open>
  \<open>filterByDifficulty\<close> looks the difficulty up in the object \<open>difficultyMap\<close>. For a
  name that every object inherits, the lookup gives a function (for \<open>__proto__\<close> an object):
  it is truthy, so the default list is not taken, and it has no method \<open>includes\<close>, so
  the callback of \<open>filter\<close> throws at the first sign.
\<close>

definition inherited_keys :: "string list" where
  "inherited_keys =
     [''constructor'', ''toString'', ''toLocaleString'', ''valueOf'', ''hasOwnProperty'',
      ''isPrototypeOf'', ''propertyIsEnumerable'', ''__proto__'', ''__defineGetter__'',
      ''__defineSetter__'', ''__lookupGetter__'', ''__lookupSetter__'']"

definition filterByDifficulty :: "sign list \<Rightarrow> string \<Rightarrow> error + sign list" where
  "filterByDifficulty signs difficulty =
     (if difficulty = ''adaptive'' then Inr signs
      else if difficulty \<in> set inherited_keys
      then (if signs = [] then Inr [] else Inl TypeError)
      else
        let allowedDifficulties =
              (if difficulty = ''easy'' then [1, 2]
               else if difficulty = ''medium'' then [2, 3, 4]
               else if difficulty = ''hard'' then [3, 4, 5]
               else [1, 2, 3, 4, 5])
        in Inr (filter (\<lambda>sign.
             let signDifficulty =
                   (case sign_difficulty sign of
                      None \<Rightarrow> 2
                    | Some d \<Rightarrow> if d = 0 then 2 else d)
             in signDifficulty \<in> set allowedDifficulties) signs))"

section \<open>The stores (js/utils/storage.js)\<close>

text \<open>
  A finished quiz as \<open>saveQuizSession\<close> stores it. \<open>wrongAnswers\<close> holds the pairs
  \<open>{id, name}\<close>; \<open>percentage\<close> is \<open>None\<close> when the quotient is not a finite number
  (a quiz without questions).
\<close>

record quiz_session =
  session_date :: int
  session_categories :: "string list"
  session_mode :: string
  session_difficulty :: string
  session_questionType :: string
  session_totalQuestions :: nat
  session_correctAnswers :: int
  session_wrongAnswers :: "(string \<times> string) list"
  session_percentage :: "int option"
  session_duration :: int
  session_bestStreak :: int

record category_stat =
  categoryKey :: string
  stat_totalAttempts :: int
  stat_correctAttempts :: int
  lastPracticed :: "int option"

text \<open>
  \<open>updateSignProgress\<close> is a second writer of \<open>signProgress\<close>, which no module
  calls: it counts the attempt and updates the average response time, and leaves the fields
  of the schedule as they are.
\<close>

definition updateSignProgress ::
  "int \<Rightarrow> (string \<rightharpoonup> progress) \<Rightarrow> string \<Rightarrow> string \<Rightarrow> bool \<Rightarrow> real
     \<Rightarrow> (string \<rightharpoonup> progress) \<times> progress" where
  "updateSignProgress now store sid cat isCorrect responseTime =
     (let p0 = (case store sid of
                  Some p \<Rightarrow> p
                | None \<Rightarrow>
                    \<lparr>signId = sid, category = cat, totalAttempts = 0, correctAttempts = 0,
                     easeFactor = 2.5, interval = 0, repetitions = 0, nextReviewDate = now,
                     lastAttemptDate = None, averageResponseTime = 0, lastQuality = None\<rparr>);
          p1 = p0\<lparr>totalAttempts := totalAttempts p0 + 1, lastAttemptDate := Some now\<rparr>;
          prevTotal = averageResponseTime p1 * real_of_int (totalAttempts p1 - 1);
          p2 = p1\<lparr>averageResponseTime :=
                    (prevTotal + responseTime) / real_of_int (totalAttempts p1)\<rparr>;
          p3 = (if isCorrect then p2\<lparr>correctAttempts := correctAttempts p2 + 1\<rparr> else p2)
      in (store(signId p3 \<mapsto> p3), p3))"

text \<open>
  The functions below take what \<open>getAll\<close> returns: the records of \<open>signProgress\<close> in
  the order of their keys, the sessions in the order they were saved (their key is
  auto-incremented). \<open>Array.prototype.sort\<close> is stable, so it is the stable sort
  \<^const>\<open>sort_key\<close>; a comparator \<open>b.k - a.k\<close> sorts by \<open>- k\<close>.
\<close>

definition getWeakestSigns :: "progress list \<Rightarrow> nat \<Rightarrow> progress list" where
  "getWeakestSigns allProgress limit =
     slice0
       (sort_key (\<lambda>p. real_of_int (correctAttempts p) / real_of_int (totalAttempts p))
          (filter (\<lambda>p. totalAttempts p \<ge> 2) allProgress))
       (int limit)"

text \<open>
  \<open>getDueForReview\<close> reads the index on \<open>nextReviewDate\<close> up to the current time: the
  records come ordered by that date, those with equal dates by key, and a count of zero
  means no limit.
\<close>

definition getDueForReview :: "int \<Rightarrow> progress list \<Rightarrow> nat \<Rightarrow> progress list" where
  "getDueForReview now allProgress limit =
     (let due = sort_key nextReviewDate (filter (\<lambda>p. nextReviewDate p \<le> now) allProgress)
      in if limit = 0 then due else take limit due)"

definition saveQuizSession :: "int \<Rightarrow> quiz_session \<Rightarrow> quiz_session list \<Rightarrow> quiz_session list" where
  "saveQuizSession now session sessions = sessions @ [session\<lparr>session_date := now\<rparr>]"

definition updateCategoryStats ::
  "int \<Rightarrow> string \<Rightarrow> int \<Rightarrow> int \<Rightarrow> (string \<rightharpoonup> category_stat) \<Rightarrow> (string \<rightharpoonup> category_stat)" where
  "updateCategoryStats now key correct total' store =
     (let stats = (case store key of
                     Some s \<Rightarrow> s
                   | None \<Rightarrow> \<lparr>categoryKey = key, stat_totalAttempts = 0,
                               stat_correctAttempts = 0, lastPracticed = None\<rparr>);
          stats = stats\<lparr>stat_totalAttempts := stat_totalAttempts stats + total',
                        stat_correctAttempts := stat_correctAttempts stats + correct,
                        lastPracticed := Some now\<rparr>
      in store(categoryKey stats \<mapsto> stats))"

section \<open>Application state (js/state.js)\<close>

record category_data =
  cat_name :: string
  cat_signs :: "sign list"

record state =
  signData :: "string \<rightharpoonup> category_data"
  selectedCategories :: "string list"
  quizSigns :: "sign list"
  currentQuestion :: nat
  correctAnswers :: int
  streak :: int
  bestStreak :: int
  wrongAnswers :: "sign list"
  questionsPerQuiz :: nat
  shuffleOptions :: bool
  showCategoryInfo :: bool
  questionType :: string
  quizMode :: string
  difficulty :: string
  currentScreen :: string
  quizStartTime :: "int option"
  quizEndTime :: "int option"

text \<open>
  The payload that \<open>saveSettings\<close> writes to \<open>localStorage\<close>; the stored item is
  \<open>None\<close> while nothing has been saved. \<open>saveSettings\<close> is the only writer, so a
  stored payload has every field.
\<close>

record settings =
  set_questionsPerQuiz :: nat
  set_shuffleOptions :: bool
  set_showCategoryInfo :: bool
  set_questionType :: string
  set_quizMode :: string
  set_difficulty :: string
  set_bestStreak :: int

definition initial_state :: state where
  "initial_state =
     \<lparr>signData = Map.empty, selectedCategories = [], quizSigns = [], currentQuestion = 0,
      correctAnswers = 0, streak = 0, bestStreak = 0, wrongAnswers = [],
      questionsPerQuiz = 15, shuffleOptions = True, showCategoryInfo = True,
      questionType = ''mixed'', quizMode = ''standard'', difficulty = ''adaptive'',
      currentScreen = ''start'', quizStartTime = None, quizEndTime = None\<rparr>"

definition saveSettings :: "state \<Rightarrow> settings option" where
  "saveSettings st =
     Some \<lparr>set_questionsPerQuiz = questionsPerQuiz st,
           set_shuffleOptions = shuffleOptions st,
           set_showCategoryInfo = showCategoryInfo st,
           set_questionType = questionType st,
           set_quizMode = quizMode st,
           set_difficulty = difficulty st,
           set_bestStreak = bestStreak st\<rparr>"

text \<open>
  \<open>loadSettings\<close>: \<open>x || d\<close> is \<open>d\<close> for the number zero and for the empty string.
\<close>

definition loadSettings :: "settings option \<Rightarrow> state \<Rightarrow> state" where
  "loadSettings stored st =
     (case stored of
        None \<Rightarrow> st
      | Some parsed \<Rightarrow>
          st\<lparr>questionsPerQuiz :=
                (if set_questionsPerQuiz parsed = 0 then questionsPerQuiz st
                 else set_questionsPerQuiz parsed),
             shuffleOptions := set_shuffleOptions parsed,
             showCategoryInfo := set_showCategoryInfo parsed,
             questionType :=
                (if set_questionType parsed = [] then questionType st
                 else set_questionType parsed),
             quizMode := (if set_quizMode parsed = [] then quizMode st else set_quizMode parsed),
             difficulty :=
                (if set_difficulty parsed = [] then difficulty st
                 else set_difficulty parsed),
             bestStreak := (if set_bestStreak parsed = 0 then 0 else set_bestStreak parsed)\<rparr>)"

definition resetQuizState :: "int \<Rightarrow> state \<Rightarrow> state" where
  "resetQuizState now st =
     st\<lparr>quizSigns := [], currentQuestion := 0, correctAnswers := 0, streak := 0,
        wrongAnswers := [], quizStartTime := Some now, quizEndTime := None\<rparr>"

text \<open>
  \<open>updateStreak\<close> works on the state and on the stored settings, which it rewrites when
  the streak is a new best.
\<close>

definition updateStreak :: "bool \<Rightarrow> state \<times> settings option \<Rightarrow> state \<times> settings option" where
  "updateStreak isCorrect w =
     (let st = fst w; stored = snd w
      in if isCorrect
         then
           let st = st\<lparr>streak := streak st + 1\<rparr>
           in if streak st > bestStreak st
              then let st = st\<lparr>bestStreak := streak st\<rparr> in (st, saveSettings st)
              else (st, stored)
         else (st\<lparr>streak := 0\<rparr>, stored))"

section \<open>The quiz engine (js/quiz/quiz-engine.js)\<close>

text \<open>
  \<open>getLatestQuizSession\<close> sorts the sessions by date, latest first, and takes the first.
\<close>

definition getLatestQuizSession :: "quiz_session list \<Rightarrow> quiz_session option" where
  "getLatestQuizSession sessions =
     (if length sessions = 0 then None
      else case sort_key (\<lambda>s. - session_date s) sessions of
             [] \<Rightarrow> None
           | s # _ \<Rightarrow> Some s)"

text \<open>
  The candidate pool: the signs of the selected categories, each tagged with the key of its
  category (\<open>category_signs\<close>), then filtered by difficulty, which can throw.
\<close>

definition category_signs :: "state \<Rightarrow> sign list" where
  "category_signs st =
     concat (map (\<lambda>catKey.
               case signData st catKey of
                 None \<Rightarrow> []
               | Some cat \<Rightarrow> map (\<lambda>sign. sign\<lparr>sign_category := catKey\<rparr>) (cat_signs cat))
             (selectedCategories st))"

definition candidate_pool :: "state \<Rightarrow> error + sign list" where
  "candidate_pool st = filterByDifficulty (category_signs st) (difficulty st)"

text \<open>
  The branches of the \<open>switch (quizMode)\<close> of \<open>selectQuizSigns\<close>, one definition each.
  \<open>candidates\<close> is the candidate pool, \<open>n\<close> is \<open>questionsPerQuiz\<close>. In the branch
  \<open>missed\<close>, \<open>missed_selected\<close> is the value of \<open>selected\<close> before the test
  \<open>selected.length < 5\<close>.
\<close>

definition missed_selected :: "quiz_session list \<Rightarrow> sign list \<Rightarrow> sign list" where
  "missed_selected sessions candidates =
     (let lastSession = getLatestQuizSession sessions
      in case lastSession of
           None \<Rightarrow> []
         | Some l \<Rightarrow>
             if length (session_wrongAnswers l) > 0
             then let missedIds = set (map fst (session_wrongAnswers l))
                  in filter (\<lambda>s. sign_id s \<in> missedIds) candidates
             else [])"

definition mode_missed :: "(nat \<Rightarrow> real) \<Rightarrow> quiz_session list \<Rightarrow> nat \<Rightarrow> sign list \<Rightarrow> sign list" where
  "mode_missed random sessions n candidates =
     (let selected = missed_selected sessions candidates
      in if length selected < 5
         then
           let remaining =
                 filter (\<lambda>s. \<not> list_ex (\<lambda>sel. sign_id sel = sign_id s) selected) candidates
           in selected @ slice0 (shuffleArray random remaining) (int n - int (length selected))
         else selected)"

definition mode_weakest :: "(nat \<Rightarrow> real) \<Rightarrow> progress list \<Rightarrow> nat \<Rightarrow> sign list \<Rightarrow> sign list" where
  "mode_weakest random allProgress n candidates =
     (let weakest = getWeakestSigns allProgress n;
          weakestIds = set (map signId weakest);
          selected = filter (\<lambda>s. sign_id s \<in> weakestIds) candidates
      in if length selected < n
         then
           let remaining =
                 filter (\<lambda>s. \<not> list_ex (\<lambda>sel. sign_id sel = sign_id s) selected) candidates
           in selected @ slice0 (shuffleArray random remaining) (int n - int (length selected))
         else selected)"

definition mode_spaced ::
  "int \<Rightarrow> (nat \<Rightarrow> real) \<Rightarrow> progress list \<Rightarrow> nat \<Rightarrow> sign list \<Rightarrow> sign list" where
  "mode_spaced now random allProgress n candidates =
     (let dueForReview = getDueForReview now allProgress (n * 2);
          dueIds = set (map signId dueForReview);
          selected = filter (\<lambda>s. sign_id s \<in> dueIds) candidates
      in if length selected < n
         then
           let studiedIds = set (map signId allProgress);
               newSigns = filter (\<lambda>s. sign_id s \<notin> studiedIds) candidates;
               remaining = slice0 (shuffleArray random newSigns) (int n - int (length selected))
           in selected @ remaining
         else selected)"

text \<open>
  Adaptive mode. \<open>new Map(pairs)\<close> keeps the last pair of a key. The clock is read once
  for the call: \<open>isDueForReview\<close> compares every record with the same \<open>now\<close>.
\<close>

definition progress_map :: "progress list \<Rightarrow> (string \<rightharpoonup> progress)" where
  "progress_map allProgress = map_of (rev (map (\<lambda>p. (signId p, p)) allProgress))"

definition sign_priority :: "int \<Rightarrow> (string \<rightharpoonup> progress) \<Rightarrow> sign \<Rightarrow> real" where
  "sign_priority now progressMap sign =
     (case progressMap (sign_id sign) of
        None \<Rightarrow> 50
      | Some p \<Rightarrow>
          let retention = getRetentionScore (Some p);
              isDue = isDueForReview now (Some p)
          in if isDue then 100 - real_of_int retention
             else 20 - real_of_int retention * 0.2)"

definition mode_adaptive :: "int \<Rightarrow> progress list \<Rightarrow> nat \<Rightarrow> sign list \<Rightarrow> sign list" where
  "mode_adaptive now allProgress n candidates =
     (let progressMap = progress_map allProgress;
          scored = map (\<lambda>sign. (sign, sign_priority now progressMap sign)) candidates;
          scored = sort_key (\<lambda>s. - snd s) scored
      in map fst (slice0 scored (int n)))"

definition mode_standard :: "(nat \<Rightarrow> real) \<Rightarrow> nat \<Rightarrow> sign list \<Rightarrow> sign list" where
  "mode_standard random n candidates = slice0 (shuffleArray random candidates) (int n)"

text \<open>
  \<open>selectQuizSigns\<close> reads the clock, the random numbers and the two stores, and writes the
  selection into the state. \<open>allProgress\<close> and \<open>sessions\<close> are what a read of the store
  \<open>signProgress\<close> and of the store \<open>quizSessions\<close> gives during the call: the records,
  or the error of the failed request. The branch \<open>missed\<close> reads the sessions, the branches
  \<open>weakest\<close>, \<open>spaced\<close> and \<open>adaptive\<close> read the progress records, the default
  branch reads nothing. When the filter or a read fails, the function throws before it
  assigns \<open>state.quizSigns\<close>.
\<close>

definition selectQuizSigns ::
  "int \<Rightarrow> (nat \<Rightarrow> real) \<Rightarrow> error + progress list \<Rightarrow> error + quiz_session list \<Rightarrow> state
     \<Rightarrow> error + state" where
  "selectQuizSigns now random allProgress sessions st =
     (case candidate_pool st of
        Inl e \<Rightarrow> Inl e
      | Inr candidates \<Rightarrow>
          let n = questionsPerQuiz st;
              selected =
                (if quizMode st = ''missed''
                 then case sessions of
                        Inl e \<Rightarrow> Inl e
                      | Inr stored \<Rightarrow> Inr (mode_missed random stored n candidates)
                 else if quizMode st = ''weakest''
                 then case allProgress of
                        Inl e \<Rightarrow> Inl e
                      | Inr records \<Rightarrow> Inr (mode_weakest random records n candidates)
                 else if quizMode st = ''spaced''
                 then case allProgress of
                        Inl e \<Rightarrow> Inl e
                      | Inr records \<Rightarrow> Inr (mode_spaced now random records n candidates)
                 else if quizMode st = ''adaptive''
                 then case allProgress of
                        Inl e \<Rightarrow> Inl e
                      | Inr records \<Rightarrow> Inr (mode_adaptive now records n candidates)
                 else Inr (mode_standard random n candidates))
          in case selected of
               Inl e \<Rightarrow> Inl e
             | Inr chosen \<Rightarrow> Inr (st\<lparr>quizSigns := chosen\<rparr>))"

text \<open>
  \<open>startQuiz\<close> is an \<open>async\<close> function: the caller gets a promise. With no category
  selected it resolves to \<open>false\<close> before it touches the state. Otherwise it resets the quiz
  state and selects the signs; an error of the selection rejects the promise, after the
  reset. The function returns the promise and the state it leaves.
\<close>

definition startQuiz ::
  "int \<Rightarrow> (nat \<Rightarrow> real) \<Rightarrow> error + progress list \<Rightarrow> error + quiz_session list \<Rightarrow> state
     \<Rightarrow> bool promise \<times> state" where
  "startQuiz now random allProgress sessions st =
     (if length (selectedCategories st) = 0 then (Promise (Inr False), st)
      else
        let st = resetQuizState now st
        in case selectQuizSigns now random allProgress sessions st of
             Inl e \<Rightarrow> (Promise (Inl e), st)
           | Inr st \<Rightarrow>
               if length (quizSigns st) = 0 then (Promise (Inr False), st)
               else (Promise (Inr True), st))"

text \<open>
  \<open>checkAnswer\<close>, its update of the state: \<open>sign\<close> is the sign of the current question
  and \<open>isCorrect\<close> the outcome of comparing the chosen option with the correct one. The
  learning record of the sign is updated by \<open>updateWithSM2\<close>, on the store.
\<close>

definition checkAnswer :: "sign \<Rightarrow> bool \<Rightarrow> state \<times> settings option \<Rightarrow> state \<times> settings option" where
  "checkAnswer sign isCorrect w =
     (let st = fst w;
          st = (if isCorrect then st\<lparr>correctAnswers := correctAnswers st + 1\<rparr>
                else st\<lparr>wrongAnswers := wrongAnswers st @ [sign]\<rparr>)
      in updateStreak isCorrect (st, snd w))"

definition nextQuestion :: "state \<Rightarrow> bool \<times> state" where
  "nextQuestion st =
     (let st = st\<lparr>currentQuestion := currentQuestion st + 1\<rparr>
      in (currentQuestion st < length (quizSigns st), st))"

text \<open>
  \<open>finishQuiz\<close> stamps the end time, saves the session and adds the result of every
  category of the quiz to the category statistics (each category once; the updates are on
  different keys, so their order does not matter). It returns the state and the two stores.
  \<open>quizStartTime\<close> is \<open>null\<close> before the first quiz, which counts as zero in the
  subtraction.
\<close>

definition finishQuiz ::
  "int \<Rightarrow> state \<Rightarrow> quiz_session list \<Rightarrow> (string \<rightharpoonup> category_stat)
     \<Rightarrow> state \<times> quiz_session list \<times> (string \<rightharpoonup> category_stat)" where
  "finishQuiz now st0 sessions stats =
     (let st = st0\<lparr>quizEndTime := Some now\<rparr>;
          duration = now - (case quizStartTime st of None \<Rightarrow> 0 | Some t \<Rightarrow> t);
          percentage =
            (if length (quizSigns st) = 0 then None
             else Some (Math_round
                    (real_of_int (correctAnswers st) / real (length (quizSigns st)) * 100)));
          sessions = saveQuizSession now
            \<lparr>session_date = now,
             session_categories = selectedCategories st,
             session_mode = quizMode st,
             session_difficulty = difficulty st,
             session_questionType = questionType st,
             session_totalQuestions = length (quizSigns st),
             session_correctAnswers = correctAnswers st,
             session_wrongAnswers = map (\<lambda>s. (sign_id s, sign_name s)) (wrongAnswers st),
             session_percentage = percentage,
             session_duration = duration,
             session_bestStreak = max (streak st) (bestStreak st)\<rparr> sessions;
          stats = fold (\<lambda>cat stats.
                    let categoryTotal =
                          int (length (filter (\<lambda>s. sign_category s = cat) (quizSigns st)));
                        wrong = int (length (filter (\<lambda>s. sign_category s = cat) (wrongAnswers st)));
                        correct = categoryTotal - wrong
                    in updateCategoryStats now cat correct categoryTotal stats)
                  (remdups (map sign_category (quizSigns st))) stats
      in (st, sessions, stats))"

section \<open>Records reachable through the update\<close>

text \<open>
  The records that \<open>updateWithSM2\<close> can leave in the store: the one it creates for a
  sign without a record, and the update of a record that is itself reachable.
\<close>

inductive reachable_record :: "progress \<Rightarrow> bool" where
  created: "store sid = None \<Longrightarrow>
     reachable_record (snd (updateWithSM2 now store sid cat isCorrect responseTimeMs))"
| updated: "store sid = Some p \<Longrightarrow> reachable_record p \<Longrightarrow>
     reachable_record (snd (updateWithSM2 now store sid cat isCorrect responseTimeMs))"

definition record_inv :: "progress \<Rightarrow> bool" where
  "record_inv p =
     (1 \<le> totalAttempts p \<and> 0 \<le> correctAttempts p \<and> correctAttempts p \<le> totalAttempts p \<and>
      1.3 \<le> easeFactor p \<and> 0 \<le> repetitions p)"

text \<open>
  A new sign answered correctly four times, after 1400, 600, 400 and 350 ms (each time in
  less than half of the average so far), and the record after each answer.
\<close>

definition four_fast_answers :: progress where
  "four_fast_answers =
     (let s1 = fst (updateWithSM2 0 Map.empty ''A1'' ''A'' True 1400);
          s2 = fst (updateWithSM2 0 s1 ''A1'' ''A'' True 600);
          s3 = fst (updateWithSM2 0 s2 ''A1'' ''A'' True 400)
      in snd (updateWithSM2 0 s3 ''A1'' ''A'' True 350))"

definition fast_1 :: progress where
  "fast_1 = \<lparr>signId = ''A1'', category = ''A'', totalAttempts = 1, correctAttempts = 1,
      easeFactor = 2.6, interval = 1, repetitions = 1, nextReviewDate = 86400000,
      lastAttemptDate = Some 0, averageResponseTime = 1400, lastQuality = Some 5\<rparr>"

definition fast_2 :: progress where
  "fast_2 = \<lparr>signId = ''A1'', category = ''A'', totalAttempts = 2, correctAttempts = 2,
      easeFactor = 2.7, interval = 6, repetitions = 2, nextReviewDate = 518400000,
      lastAttemptDate = Some 0, averageResponseTime = 1000, lastQuality = Some 5\<rparr>"

definition fast_3 :: progress where
  "fast_3 = \<lparr>signId = ''A1'', category = ''A'', totalAttempts = 3, correctAttempts = 3,
      easeFactor = 2.8, interval = 17, repetitions = 3, nextReviewDate = 1468800000,
      lastAttemptDate = Some 0, averageResponseTime = 800, lastQuality = Some 5\<rparr>"

definition fast_4 :: progress where
  "fast_4 = \<lparr>signId = ''A1'', category = ''A'', totalAttempts = 4, correctAttempts = 4,
      easeFactor = 2.9, interval = 49, repetitions = 4, nextReviewDate = 4233600000,
      lastAttemptDate = Some 0, averageResponseTime = 687.5, lastQuality = Some 5\<rparr>"

section \<open>Inputs of the selection and of a quiz\<close>

text \<open>
  \<open>Math.random()\<close> returns numbers in \<open>[0, 1)\<close>: the streams of random numbers that
  the program can see.
\<close>

definition unit_interval :: "(nat \<Rightarrow> real) \<Rightarrow> bool" where
  "unit_interval random = (\<forall>k. 0 \<le> random k \<and> random k < 1)"

text \<open>
  The set \<open>missedIds\<close> of the branch \<open>missed\<close>: the ids of the wrong answers of the
  latest session, empty when there is no session.
\<close>

definition missed_ids :: "quiz_session list \<Rightarrow> string set" where
  "missed_ids sessions =
     (case getLatestQuizSession sessions of
        None \<Rightarrow> {}
      | Some l \<Rightarrow> set (map fst (session_wrongAnswers l)))"

text \<open>
  Data for the examples: a stream of random numbers (all zero), signs without a difficulty,
  the record of a sign answered wrong once at time 0, a stored session with given date and
  missed signs, a pool of ten signs, and a state with one category of three signs selected.
\<close>

definition rnd0 :: "nat \<Rightarrow> real" where
  "rnd0 k = 0"

definition mk_sign :: "string \<Rightarrow> sign" where
  "mk_sign i = \<lparr>sign_id = i, sign_name = i, sign_difficulty = None, sign_category = ''A''\<rparr>"

definition once_wrong :: "string \<Rightarrow> progress" where
  "once_wrong i = snd (updateWithSM2 0 Map.empty i ''A'' False 5000)"

definition session_with :: "int \<Rightarrow> string list \<Rightarrow> quiz_session" where
  "session_with date missed =
     \<lparr>session_date = date, session_categories = [''A''], session_mode = ''standard'',
      session_difficulty = ''adaptive'', session_questionType = ''mixed'',
      session_totalQuestions = 10, session_correctAnswers = 10 - int (length missed),
      session_wrongAnswers = map (\<lambda>i. (i, i)) missed,
      session_percentage = Some (100 - 10 * int (length missed)),
      session_duration = 60000, session_bestStreak = 3\<rparr>"

definition pool10 :: "sign list" where
  "pool10 = map mk_sign [''S0'', ''S1'', ''S2'', ''S3'', ''S4'', ''S5'', ''S6'', ''S7'', ''S8'', ''S9'']"

definition demo_state :: state where
  "demo_state =
     initial_state
       \<lparr>signData := [''A'' \<mapsto> \<lparr>cat_name = ''A'', cat_signs = [mk_sign ''S0'', mk_sign ''S1'', mk_sign ''S2'']\<rparr>],
        selectedCategories := [''A'']\<rparr>"

text \<open>
  The handlers of \<open>js/app.js\<close> answer the questions of a started quiz in order:
  \<open>handleAnswer\<close> calls \<open>checkAnswer\<close> for the current question, \<open>handleNextQuestion\<close>
  calls \<open>nextQuestion\<close>. \<open>play\<close> does so for a list of outcomes and returns the state and
  the stored settings after each answer; it stops when the quiz has no question left.
\<close>

fun play :: "bool list \<Rightarrow> state \<times> settings option \<Rightarrow> (state \<times> settings option) list" where
  "play [] w = []"
| "play (isCorrect # rest) w =
     (if currentQuestion (fst w) < length (quizSigns (fst w))
      then
        let w1 = checkAnswer (quizSigns (fst w) ! currentQuestion (fst w)) isCorrect w;
            w2 = (snd (nextQuestion (fst w1)), snd w1)
        in w2 # play rest w2
      else [])"

text \<open>
  Two quizzes on the same installation. In the first all three answers are correct and the
  quiz is finished; the page is loaded again (\<open>loadSettings\<close> on the start state); in
  the second quiz the second answer is wrong.
\<close>

definition first_quiz :: "(state \<times> settings option) list" where
  "first_quiz = play [True, True, True] (snd (startQuiz 1000 rnd0 (Inr []) (Inr []) demo_state), None)"

definition first_sessions :: "quiz_session list" where
  "first_sessions = fst (snd (finishQuiz 2000 (fst (last first_quiz)) [] Map.empty))"

definition second_quiz :: "(state \<times> settings option) list" where
  "second_quiz =
     play [True, False, True]
       (snd (startQuiz 3000 rnd0 (Inr []) (Inr first_sessions)
          (loadSettings (snd (last first_quiz)) demo_state)),
        snd (last first_quiz))"

definition second_sessions :: "quiz_session list" where
  "second_sessions =
     fst (snd (finishQuiz 4000 (fst (last second_quiz)) first_sessions Map.empty))"

section \<open>Properties of the retention model\<close>

lemma calculateSM2_easeFactor:
  "sm2_easeFactor (calculateSM2 q ef iv reps) =
     max 1.3 (ef + (0.1 - (5 - real_of_int q) * (0.08 + (5 - real_of_int q) * 0.02)))"
  by (simp add: calculateSM2_def Let_def)



text \<open>
  Claim C2. After any call of \<open>updateWithSM2\<close>, on any stored record or none and for any
  answer, the ease factor of the record that is written and returned is
  \<open>max 1.3 (ef + (0.1 - (5 - q) * (0.08 + (5 - q) * 0.02)))\<close>, for the old ease factor
  \<open>ef\<close> (2.5 for a new record) and the quality \<open>q\<close> of the answer, and so at least 1.3.
\<close>

theorem updateWithSM2_easeFactor_floor:
  "(let ef = (case store sid of None \<Rightarrow> 2.5 | Some p \<Rightarrow> easeFactor p);
        avg = (case store sid of None \<Rightarrow> 3000 | Some p \<Rightarrow> averageResponseTime p);
        q = responseToQuality ok rt avg;
        r = updateWithSM2 now store sid cat ok rt
    in easeFactor (snd r) =
         max 1.3 (ef + (0.1 - (5 - real_of_int q) * (0.08 + (5 - real_of_int q) * 0.02)))
       \<and> 1.3 \<le> easeFactor (snd r)
       \<and> fst r (signId (snd r)) = Some (snd r))"
proof -
  define p0 where "p0 = (case store sid of
      Some p \<Rightarrow> p
    | None \<Rightarrow>
        \<lparr>signId = sid, category = cat, totalAttempts = 0, correctAttempts = 0,
         easeFactor = 2.5, interval = 0, repetitions = 0, nextReviewDate = now,
         lastAttemptDate = None, averageResponseTime = 3000, lastQuality = None\<rparr>)"
  define q where "q = responseToQuality ok rt (averageResponseTime p0)"
  define r where "r = updateWithSM2 now store sid cat ok rt"
  have ef: "easeFactor (snd r) = sm2_easeFactor
      (calculateSM2 q (easeFactor p0) (interval p0) (repetitions p0))"
    by (simp add: r_def q_def p0_def updateWithSM2_def Let_def)
  have old_ef: "easeFactor p0 = (case store sid of None \<Rightarrow> 2.5 | Some p \<Rightarrow> easeFactor p)"
    by (simp add: p0_def split: option.split)
  have old_avg: "averageResponseTime p0 =
      (case store sid of None \<Rightarrow> 3000 | Some p \<Rightarrow> averageResponseTime p)"
    by (simp add: p0_def split: option.split)
  have formula: "easeFactor (snd r) =
      max 1.3 (easeFactor p0
        + (0.1 - (5 - real_of_int q) * (0.08 + (5 - real_of_int q) * 0.02)))"
    unfolding ef by (rule calculateSM2_easeFactor)
  have floor: "1.3 \<le> easeFactor (snd r)"
    unfolding formula by (rule max.cobounded1)
  have stored: "fst r (signId (snd r)) = Some (snd r)"
    by (simp add: r_def updateWithSM2_def Let_def)
  from formula floor stored show ?thesis
    unfolding Let_def r_def [symmetric] old_ef [symmetric] old_avg [symmetric] q_def [symmetric]
    by blast
qed

theorem updateWithSM2_easeFactor_floor_witness:
  "easeFactor (snd (updateWithSM2 0 Map.empty ''A1'' ''A'' True 1000)) = 2.6
   \<and> 1.3 \<le> easeFactor (snd (updateWithSM2 0 Map.empty ''A1'' ''A'' True 1000))"
  using updateWithSM2_easeFactor_floor [of Map.empty "''A1''" True 1000 0 "''A''"]
  by (simp add: responseToQuality_def Let_def)

text \<open>
  The other writer of the store keeps the ease factor it finds, 2.5 for a new record.
\<close>

lemma updateSignProgress_easeFactor:
  "easeFactor (snd (updateSignProgress now store sid cat ok rt)) =
     (case store sid of None \<Rightarrow> 2.5 | Some p \<Rightarrow> easeFactor p)"
  by (simp add: updateSignProgress_def Let_def split: option.split)

text \<open>
  Claim C3. \<open>responseToQuality\<close> gives an incorrect answer the quality 1 when it took less
  than 3000 ms and 0 otherwise; a correct answer gets 5, 4 or 3 as the ratio of the response
  time to the average response time (3000 when the average is zero) is below 0.5, below 1,
  or not.
\<close>

theorem responseToQuality_policy:
  "responseToQuality False rt avg = (if rt < 3000 then 1 else 0) \<and>
   responseToQuality True rt avg =
     (let ratio = rt / (if avg = 0 then 3000 else avg)
      in if ratio < 0.5 then 5 else if ratio < 1 then 4 else 3)"
  by (simp add: responseToQuality_def Let_def)

theorem responseToQuality_policy_witness:
  "responseToQuality False 2999 0 = 1 \<and> responseToQuality False 3000 0 = 0
   \<and> responseToQuality True 1499 0 = 5 \<and> responseToQuality True 1500 0 = 4
   \<and> responseToQuality True 999 1000 = 4 \<and> responseToQuality True 1000 1000 = 3"
  using responseToQuality_policy [of 2999 0] responseToQuality_policy [of 3000 0]
    responseToQuality_policy [of 1499 0] responseToQuality_policy [of 1500 0]
    responseToQuality_policy [of 999 1000] responseToQuality_policy [of 1000 1000]
  by (simp add: Let_def)

text \<open>
  Claim C8, as the specification states it, fails: from the default record (ease factor 2.5,
  interval 0, no repetitions) an incorrect answer after 5000 ms has quality 0 and resets
  repetitions and interval, but the new ease factor is not 1.6.
\<close>

theorem scenario_B_counterexample:
  "\<not> (responseToQuality False 5000 3000 = 0 \<and>
      sm2_repetitions (calculateSM2 0 2.5 0 0) = 0 \<and>
      sm2_interval (calculateSM2 0 2.5 0 0) = 1 \<and>
      sm2_easeFactor (calculateSM2 0 2.5 0 0) = 1.6)"
  by (simp add: calculateSM2_def)

text \<open>
  Claim C8, amended. From the default record an incorrect answer after 5000 ms has quality
  0, and the update gives no repetitions, the interval 1 and the ease factor
  \<open>2.5 + (0.1 - 5 * 0.18) = 1.7\<close>; so does \<open>updateWithSM2\<close> for a sign without a record.
\<close>

theorem scenario_B:
  "responseToQuality False 5000 3000 = 0 \<and>
   calculateSM2 0 2.5 0 0 = \<lparr>sm2_easeFactor = 1.7, sm2_interval = 1, sm2_repetitions = 0\<rparr> \<and>
   lastQuality (snd (updateWithSM2 now Map.empty sid cat False 5000)) = Some 0 \<and>
   repetitions (snd (updateWithSM2 now Map.empty sid cat False 5000)) = 0 \<and>
   interval (snd (updateWithSM2 now Map.empty sid cat False 5000)) = 1 \<and>
   easeFactor (snd (updateWithSM2 now Map.empty sid cat False 5000)) = 1.7"
  by (simp add: responseToQuality_def calculateSM2_def updateWithSM2_def Let_def)

section \<open>The retention score\<close>

lemma calculateSM2_repetitions_nonneg:
  "0 \<le> reps \<Longrightarrow> 0 \<le> sm2_repetitions (calculateSM2 q ef iv reps)"
  by (simp add: calculateSM2_def Let_def)

lemma calculateSM2_easeFactor_ge: "1.3 \<le> sm2_easeFactor (calculateSM2 q ef iv reps)"
  unfolding calculateSM2_easeFactor by (rule max.cobounded1)

lemma updateWithSM2_fields:
  "totalAttempts (snd (updateWithSM2 now store sid cat ok rt)) =
     (case store sid of None \<Rightarrow> 0 | Some p \<Rightarrow> totalAttempts p) + 1"
  "correctAttempts (snd (updateWithSM2 now store sid cat ok rt)) =
     (case store sid of None \<Rightarrow> 0 | Some p \<Rightarrow> correctAttempts p) + (if ok then 1 else 0)"
  "easeFactor (snd (updateWithSM2 now store sid cat ok rt)) =
     sm2_easeFactor (calculateSM2
       (responseToQuality ok rt (case store sid of None \<Rightarrow> 3000 | Some p \<Rightarrow> averageResponseTime p))
       (case store sid of None \<Rightarrow> 2.5 | Some p \<Rightarrow> easeFactor p)
       (case store sid of None \<Rightarrow> 0 | Some p \<Rightarrow> interval p)
       (case store sid of None \<Rightarrow> 0 | Some p \<Rightarrow> repetitions p))"
  "repetitions (snd (updateWithSM2 now store sid cat ok rt)) =
     sm2_repetitions (calculateSM2
       (responseToQuality ok rt (case store sid of None \<Rightarrow> 3000 | Some p \<Rightarrow> averageResponseTime p))
       (case store sid of None \<Rightarrow> 2.5 | Some p \<Rightarrow> easeFactor p)
       (case store sid of None \<Rightarrow> 0 | Some p \<Rightarrow> interval p)
       (case store sid of None \<Rightarrow> 0 | Some p \<Rightarrow> repetitions p))"
  by (simp_all add: updateWithSM2_def Let_def split: option.split)

lemma updateWithSM2_record_inv:
  assumes "case store sid of None \<Rightarrow> True | Some p \<Rightarrow> record_inv p"
  shows "record_inv (snd (updateWithSM2 now store sid cat ok rt))"
proof -
  let ?r = "snd (updateWithSM2 now store sid cat ok rt)"
  have old: "0 \<le> (case store sid of None \<Rightarrow> 0 | Some p \<Rightarrow> totalAttempts p)"
    "0 \<le> (case store sid of None \<Rightarrow> 0 | Some p \<Rightarrow> correctAttempts p)"
    "(case store sid of None \<Rightarrow> 0 | Some p \<Rightarrow> correctAttempts p)
       \<le> (case store sid of None \<Rightarrow> 0 | Some p \<Rightarrow> totalAttempts p)"
    "0 \<le> (case store sid of None \<Rightarrow> 0 | Some p \<Rightarrow> repetitions p)"
    using assms by (auto simp: record_inv_def split: option.splits)
  have t: "1 \<le> totalAttempts ?r"
    unfolding updateWithSM2_fields using old(1) by simp
  have c0: "0 \<le> correctAttempts ?r"
    unfolding updateWithSM2_fields using old(2) by simp
  have c1: "correctAttempts ?r \<le> totalAttempts ?r"
    unfolding updateWithSM2_fields using old(3) by simp
  have e: "1.3 \<le> easeFactor ?r"
    unfolding updateWithSM2_fields by (rule calculateSM2_easeFactor_ge)
  have r: "0 \<le> repetitions ?r"
    unfolding updateWithSM2_fields using old(4) by (rule calculateSM2_repetitions_nonneg)
  from t c0 c1 e r show ?thesis unfolding record_inv_def by blast
qed

lemma reachable_record_inv: "reachable_record p \<Longrightarrow> record_inv p"
proof (induction rule: reachable_record.induct)
  case (created store sid now cat isCorrect responseTimeMs)
  then show ?case by (intro updateWithSM2_record_inv) simp
next
  case (updated store sid p now cat isCorrect responseTimeMs)
  then show ?case by (intro updateWithSM2_record_inv) simp
qed

lemma Math_round_nonneg: "0 \<le> x \<Longrightarrow> 0 \<le> Math_round x"
  by (simp add: Math_round_def)

lemma Math_round_le: "x \<le> real_of_int n \<Longrightarrow> Math_round x \<le> n"
  unfolding Math_round_def by linarith

lemma weighted_nonneg:
  "0 \<le> a \<Longrightarrow> 0 \<le> f \<Longrightarrow> 0 \<le> m \<Longrightarrow> 0 \<le> (a * 0.5 + f * 0.3 + m * 0.2) * (100::real)"
  by simp

lemma weighted_le_100:
  "a \<le> 1 \<Longrightarrow> f \<le> 1 \<Longrightarrow> m \<le> 1 \<Longrightarrow>
   (a * 0.5 + f * 0.3 + m * 0.2) * (100::real) \<le> real_of_int 100"
  by simp

lemma getRetentionScore_attempted:
  "totalAttempts p \<noteq> 0 \<Longrightarrow>
   getRetentionScore (Some p) =
     Math_round ((real_of_int (correctAttempts p) / real_of_int (totalAttempts p) * 0.5
       + (easeFactor p - 1.3) / (2.5 - 1.3) * 0.3
       + min 1 (real_of_int (repetitions p) / 5) * 0.2) * 100)"
  unfolding getRetentionScore_def Let_def by (simp only: option.case if_False)

text \<open>
  The part of claim C4 that holds: on a reachable record the score is the rounded weighted
  sum, it is never negative, and it is at most 100 as long as the ease factor is at most 2.5.
\<close>

lemma getRetentionScore_nonneg:
  assumes "reachable_record p"
  shows "0 \<le> getRetentionScore (Some p)"
proof -
  from assms have "record_inv p" by (rule reachable_record_inv)
  then have t: "0 < real_of_int (totalAttempts p)"
    and c: "0 \<le> real_of_int (correctAttempts p)"
    and e: "1.3 \<le> easeFactor p" and r: "0 \<le> real_of_int (repetitions p)"
    and ne: "totalAttempts p \<noteq> 0"
    by (simp_all add: record_inv_def)
  have a: "0 \<le> real_of_int (correctAttempts p) / real_of_int (totalAttempts p)"
    using t c by simp
  have f: "0 \<le> (easeFactor p - 1.3) / (2.5 - 1.3)" using e by simp
  have m: "0 \<le> min 1 (real_of_int (repetitions p) / 5)" using r by simp
  show ?thesis
    unfolding getRetentionScore_attempted [OF ne]
    by (rule Math_round_nonneg, rule weighted_nonneg [OF a f m])
qed

lemma getRetentionScore_le_100:
  assumes "reachable_record p" and "easeFactor p \<le> 2.5"
  shows "getRetentionScore (Some p) \<le> 100"
proof -
  from assms(1) have "record_inv p" by (rule reachable_record_inv)
  then have t: "0 < real_of_int (totalAttempts p)"
    and c: "real_of_int (correctAttempts p) \<le> real_of_int (totalAttempts p)"
    and ne: "totalAttempts p \<noteq> 0"
    by (simp_all add: record_inv_def)
  have a: "real_of_int (correctAttempts p) / real_of_int (totalAttempts p) \<le> 1"
    using t c by simp
  have f: "(easeFactor p - 1.3) / (2.5 - 1.3) \<le> 1" using assms(2) by simp
  have m: "min 1 (real_of_int (repetitions p) / 5) \<le> 1" by simp
  show ?thesis
    unfolding getRetentionScore_attempted [OF ne]
    by (rule Math_round_le, rule weighted_le_100 [OF a f m])
qed

lemma fast_step_1:
  "updateWithSM2 0 Map.empty ''A1'' ''A'' True 1400 = ([''A1'' \<mapsto> fast_1], fast_1)"
  by (simp add: updateWithSM2_def Let_def responseToQuality_def calculateSM2_def
      getNextReviewDate_def fast_1_def)

lemma fast_step_2:
  "updateWithSM2 0 [''A1'' \<mapsto> fast_1] ''A1'' ''A'' True 600 = ([''A1'' \<mapsto> fast_2], fast_2)"
  by (simp add: updateWithSM2_def Let_def responseToQuality_def calculateSM2_def
      getNextReviewDate_def fast_1_def fast_2_def)

lemma fast_step_3:
  "updateWithSM2 0 [''A1'' \<mapsto> fast_2] ''A1'' ''A'' True 400 = ([''A1'' \<mapsto> fast_3], fast_3)"
  by (simp add: updateWithSM2_def Let_def responseToQuality_def calculateSM2_def
      getNextReviewDate_def Math_round_def fast_2_def fast_3_def)

lemma fast_step_4:
  "updateWithSM2 0 [''A1'' \<mapsto> fast_3] ''A1'' ''A'' True 350 = ([''A1'' \<mapsto> fast_4], fast_4)"
  by (simp add: updateWithSM2_def Let_def responseToQuality_def calculateSM2_def
      getNextReviewDate_def Math_round_def fast_3_def fast_4_def)

lemma four_fast_answers_eq: "four_fast_answers = fast_4"
  unfolding four_fast_answers_def Let_def fast_step_1 fst_conv fast_step_2 fast_step_3
    fast_step_4 snd_conv ..

lemma four_fast_answers_reachable: "reachable_record four_fast_answers"
proof -
  have r1: "reachable_record fast_1"
    using reachable_record.created [of Map.empty "''A1''" 0 "''A''" True 1400]
    by (simp add: fast_step_1)
  have r2: "reachable_record fast_2"
    using reachable_record.updated [of "[''A1'' \<mapsto> fast_1]" "''A1''" fast_1 0 "''A''" True 600] r1
    by (simp add: fast_step_2)
  have r3: "reachable_record fast_3"
    using reachable_record.updated [of "[''A1'' \<mapsto> fast_2]" "''A1''" fast_2 0 "''A''" True 400] r2
    by (simp add: fast_step_3)
  have r4: "reachable_record fast_4"
    using reachable_record.updated [of "[''A1'' \<mapsto> fast_3]" "''A1''" fast_3 0 "''A''" True 350] r3
    by (simp add: fast_step_4)
  then show ?thesis by (simp add: four_fast_answers_eq)
qed

text \<open>
  Claim C4 fails on the code: the record of a new sign after four fast correct answers is
  reachable, its ease factor is 2.9, and its retention score is 106, above 100.
\<close>

theorem retention_score_exceeds_100:
  "reachable_record four_fast_answers \<and>
   easeFactor four_fast_answers = 2.9 \<and>
   getRetentionScore (Some four_fast_answers) = 106"
proof -
  have "getRetentionScore (Some fast_4) = 106"
    by (simp add: getRetentionScore_def Let_def Math_round_def fast_4_def)
  moreover have "easeFactor fast_4 = 2.9"
    by (simp add: fast_4_def)
  ultimately show ?thesis
    using four_fast_answers_reachable by (simp add: four_fast_answers_eq)
qed

theorem retention_score_exceeds_100_witness:
  "100 < getRetentionScore (Some four_fast_answers)"
  using retention_score_exceeds_100 by simp

section \<open>Slices and shuffles\<close>

lemma slice0_nat: "slice0 xs (int n) = take n xs"
  by (simp add: slice0_def)

lemma mset_slice0: "mset (slice0 xs e) \<subseteq># mset xs"
proof -
  have "mset (take m xs) \<subseteq># mset xs" for m
    by (metis append_take_drop_id mset_append mset_subset_eq_add_left)
  then show ?thesis by (simp add: slice0_def)
qed

lemma length_slice0_nonneg: "0 \<le> e \<Longrightarrow> length (slice0 xs e) = min (nat e) (length xs)"
  by (simp add: slice0_def min.commute)

lemma slice0_Nil: "slice0 [] e = []"
  by (simp add: slice0_def)


text \<open>
  The index drawn in the shuffle loop is within the part of the array still to be shuffled,
  so every step is a swap and the shuffled array is a permutation of the array.
\<close>

lemma random_index:
  assumes "0 \<le> r" and "r < 1"
  shows "nat \<lfloor>r * real (Suc i)\<rfloor> \<le> i"
proof -
  have "r * real (Suc i) < real (Suc i)" using assms by simp
  then have "\<lfloor>r * real (Suc i)\<rfloor> < int (Suc i)" by (simp add: floor_less_iff)
  then show ?thesis by linarith
qed

lemma mset_shuffle_loop:
  "unit_interval random \<Longrightarrow> i \<le> length arr - 1 \<Longrightarrow>
   mset (shuffle_loop random k i arr) = mset arr"
proof (induction i arbitrary: k arr)
  case 0
  then show ?case by simp
next
  case (Suc i')
  let ?j = "nat \<lfloor>random k * real (Suc i' + 1)\<rfloor>"
  from Suc.prems(1) have "0 \<le> random k" "random k < 1"
    by (simp_all add: unit_interval_def)
  then have "?j \<le> Suc i'" using random_index [of "random k" "Suc i'"] by simp
  moreover from Suc.prems(2) have i: "Suc i' < length arr" by simp
  ultimately have j: "?j < length arr" by simp
  let ?arr = "arr[Suc i' := arr ! ?j, ?j := arr ! Suc i']"
  have "mset ?arr = mset arr" using mset_swap [OF j i] .
  moreover have "mset (shuffle_loop random (Suc k) i' ?arr) = mset ?arr"
    using Suc.prems(1) i by (intro Suc.IH) simp_all
  ultimately show ?case by (simp add: Let_def)
qed

lemma mset_shuffleArray:
  "unit_interval random \<Longrightarrow> mset (shuffleArray random array) = mset array"
  unfolding shuffleArray_def by (rule mset_shuffle_loop) simp_all

lemma length_shuffleArray:
  "unit_interval random \<Longrightarrow> length (shuffleArray random array) = length array"
  using mset_shuffleArray [of random array] by (metis size_mset)

lemma shuffleArray_Nil: "shuffleArray random [] = []"
  by (simp add: shuffleArray_def)


section \<open>Adaptive selection\<close>

lemma mode_adaptive_eq:
  "mode_adaptive now allProgress n candidates =
     take n (map fst (sort_key (\<lambda>s. - snd s)
       (map (\<lambda>sign. (sign, sign_priority now (progress_map allProgress) sign)) candidates)))"
  by (simp add: mode_adaptive_def Let_def slice0_nat take_map)


text \<open>
  Sorting the scored candidates by falling priority and dropping the scores gives a
  permutation of the candidates in which priorities never rise and in which the candidates
  of one priority stand in their original order.
\<close>

lemma scored_sorted:
  fixes prio :: "'a \<Rightarrow> real" and xs :: "'a list"
  defines "ordered \<equiv> map fst (sort_key (\<lambda>s. - snd s) (map (\<lambda>x. (x, prio x)) xs))"
  shows "mset ordered = mset xs"
    and "sorted_wrt (\<lambda>a b. prio b \<le> prio a) ordered"
    and "filter (\<lambda>x. prio x = k) ordered = filter (\<lambda>x. prio x = k) xs"
proof -
  let ?scored = "map (\<lambda>x. (x, prio x)) xs"
  let ?sorted = "sort_key (\<lambda>s. - snd s) ?scored"
  have snd_fst: "snd e = prio (fst e)" if "e \<in> set ?sorted" for e
    using that by auto
  have "mset ?sorted = mset ?scored" by simp
  then have "mset (map fst ?sorted) = mset (map fst ?scored)"
    by (metis mset_map)
  also have "map fst ?scored = xs" by (simp add: comp_def)
  finally show "mset ordered = mset xs" by (simp add: ordered_def)
  have "sorted (map (\<lambda>s. - snd s) ?sorted)" by (rule sorted_sort_key)
  moreover have "map (\<lambda>s. - snd s) ?sorted = map (\<lambda>x. - prio x) (map fst ?sorted)"
    using snd_fst by (simp add: comp_def)
  ultimately have "sorted (map (\<lambda>x. - prio x) ordered)" by (simp add: ordered_def)
  then show "sorted_wrt (\<lambda>a b. prio b \<le> prio a) ordered"
    by (simp add: sorted_map)
  have "filter (\<lambda>x. prio x = k) (map fst ?sorted)
      = map fst (filter (\<lambda>e. prio (fst e) = k) ?sorted)"
    by (simp add: filter_map comp_def)
  also have "filter (\<lambda>e. prio (fst e) = k) ?sorted = filter (\<lambda>e. - snd e = - k) ?sorted"
    using snd_fst by (intro filter_cong) auto
  also have "\<dots> = filter (\<lambda>e. - snd e = - k) ?scored"
    by (rule sort_key_stable)
  also have "map fst \<dots> = filter (\<lambda>x. prio x = k) xs"
    by (induction xs) auto
  finally show "filter (\<lambda>x. prio x = k) ordered = filter (\<lambda>x. prio x = k) xs"
    by (simp add: ordered_def)
qed

lemma once_wrong_eq:
  "once_wrong i = \<lparr>signId = i, category = ''A'', totalAttempts = 1, correctAttempts = 0,
      easeFactor = 1.7, interval = 1, repetitions = 0, nextReviewDate = 86400000,
      lastAttemptDate = Some 0, averageResponseTime = 5000, lastQuality = Some 0\<rparr>"
  by (simp add: once_wrong_def updateWithSM2_def Let_def responseToQuality_def calculateSM2_def
      getNextReviewDate_def)

lemma once_wrong_score: "getRetentionScore (Some (once_wrong i)) = 10"
  unfolding once_wrong_eq by (simp add: getRetentionScore_def Let_def Math_round_def)

lemma prio_new: "sign_priority t (progress_map [once_wrong ''S1'']) (mk_sign ''S0'') = 50"
  by (simp add: sign_priority_def progress_map_def once_wrong_eq mk_sign_def)

lemma prio_before: "sign_priority 1000 (progress_map [once_wrong ''S1'']) (mk_sign ''S1'') = 18"
  unfolding sign_priority_def Let_def once_wrong_score
  by (simp add: progress_map_def once_wrong_score isDueForReview_def mk_sign_def)
     (simp add: once_wrong_eq)

lemma prio_after: "sign_priority 90000000 (progress_map [once_wrong ''S1'']) (mk_sign ''S1'') = 90"
  unfolding sign_priority_def Let_def once_wrong_score
  by (simp add: progress_map_def once_wrong_score isDueForReview_def mk_sign_def)
     (simp add: once_wrong_eq)

lemma adaptive_before:
  "mode_adaptive 1000 [once_wrong ''S1''] 2 [mk_sign ''S0'', mk_sign ''S1'']
     = [mk_sign ''S0'', mk_sign ''S1'']"
  by (simp add: mode_adaptive_eq prio_new prio_before)

lemma adaptive_after:
  "mode_adaptive 90000000 [once_wrong ''S1''] 2 [mk_sign ''S0'', mk_sign ''S1'']
     = [mk_sign ''S1'', mk_sign ''S0'']"
  by (simp add: mode_adaptive_eq prio_new prio_after)


text \<open>
  Claim C5. In adaptive mode a candidate without a progress record has priority 50, one with
  a record that is due has 100 minus its retention score, one with a record that is not due
  has 20 minus 0.2 times its retention score. The selection is the first \<open>n\<close> candidates
  of the pool ordered by falling priority, and has exactly \<open>min n (length candidates)\<close>
  items; nothing is appended.
\<close>

theorem mode_adaptive_priority_order:
  "sign_priority now progressMap sign =
     (case progressMap (sign_id sign) of
        None \<Rightarrow> 50
      | Some p \<Rightarrow>
          if isDueForReview now (Some p) then 100 - real_of_int (getRetentionScore (Some p))
          else 20 - real_of_int (getRetentionScore (Some p)) * 0.2)
   \<and> (\<exists>ordered.
         mset ordered = mset candidates \<and>
         sorted_wrt (\<lambda>a b. sign_priority now (progress_map allProgress) b
                           \<le> sign_priority now (progress_map allProgress) a) ordered \<and>
         mode_adaptive now allProgress n candidates = take n ordered)
   \<and> length (mode_adaptive now allProgress n candidates) = min n (length candidates)"
proof -
  let ?prio = "sign_priority now (progress_map allProgress)"
  let ?ordered = "map fst (sort_key (\<lambda>s. - snd s) (map (\<lambda>x. (x, ?prio x)) candidates))"
  have formula: "sign_priority now progressMap sign =
     (case progressMap (sign_id sign) of
        None \<Rightarrow> 50
      | Some p \<Rightarrow>
          if isDueForReview now (Some p) then 100 - real_of_int (getRetentionScore (Some p))
          else 20 - real_of_int (getRetentionScore (Some p)) * 0.2)"
    by (simp add: sign_priority_def Let_def split: option.split)
  have sel: "mode_adaptive now allProgress n candidates = take n ?ordered"
    by (rule mode_adaptive_eq)
  have perm: "mset ?ordered = mset candidates" by (rule scored_sorted(1))
  have ord: "sorted_wrt (\<lambda>a b. ?prio b \<le> ?prio a) ?ordered" by (rule scored_sorted(2))
  have "length ?ordered = length candidates" by simp
  then have len: "length (mode_adaptive now allProgress n candidates) = min n (length candidates)"
    unfolding sel by (simp add: min.commute)
  from perm ord sel have "\<exists>ordered.
         mset ordered = mset candidates \<and>
         sorted_wrt (\<lambda>a b. ?prio b \<le> ?prio a) ordered \<and>
         mode_adaptive now allProgress n candidates = take n ordered"
    by blast
  with formula len show ?thesis by blast
qed

theorem mode_adaptive_priority_order_witness:
  "sign_priority 1000 (progress_map [once_wrong ''S1'']) (mk_sign ''S1'') = 18
   \<and> sign_priority 90000000 (progress_map [once_wrong ''S1'']) (mk_sign ''S1'') = 90
   \<and> sign_priority 1000 (progress_map [once_wrong ''S1'']) (mk_sign ''S0'') = 50
   \<and> length (mode_adaptive 1000 [once_wrong ''S1''] 1 [mk_sign ''S0'', mk_sign ''S1'']) = 1"
  using mode_adaptive_priority_order [where now = 1000
      and progressMap = "progress_map [once_wrong ''S1'']" and sign = "mk_sign ''S1''"
      and allProgress = "[once_wrong ''S1'']" and n = 1
      and candidates = "[mk_sign ''S0'', mk_sign ''S1'']"]
  by (simp add: prio_after prio_new prio_before)


text \<open>
  Claim C6, as the specification states it, fails: the selection also reads the clock. With
  the same pool and the same progress records, a call before the review date of a record
  and a call after it return different lists.
\<close>

theorem mode_adaptive_clock_counterexample:
  "mode_adaptive 1000 [once_wrong ''S1''] 2 [mk_sign ''S0'', mk_sign ''S1'']
     \<noteq> mode_adaptive 90000000 [once_wrong ''S1''] 2 [mk_sign ''S0'', mk_sign ''S1'']"
  unfolding adaptive_before adaptive_after by (simp add: mk_sign_def)


text \<open>
  Claim C6, amended. At one reading of the clock the selection is a function of the pool,
  the target count and the progress lookup alone (two lists of records with the same lookup
  give the same selection), and the selected candidates of any one priority are the first
  candidates of that priority in the pool, in pool order.
\<close>

theorem mode_adaptive_stable:
  "(progress_map allProgress = progress_map allProgress' \<longrightarrow>
      mode_adaptive now allProgress n candidates = mode_adaptive now allProgress' n candidates)
   \<and> prefix
        (filter (\<lambda>s. sign_priority now (progress_map allProgress) s = k)
           (mode_adaptive now allProgress n candidates))
        (filter (\<lambda>s. sign_priority now (progress_map allProgress) s = k) candidates)"
proof -
  let ?prio = "sign_priority now (progress_map allProgress)"
  let ?ordered = "map fst (sort_key (\<lambda>s. - snd s) (map (\<lambda>x. (x, ?prio x)) candidates))"
  have det: "progress_map allProgress = progress_map allProgress' \<longrightarrow>
      mode_adaptive now allProgress n candidates = mode_adaptive now allProgress' n candidates"
    by (simp add: mode_adaptive_def)
  have "prefix (take n ?ordered) ?ordered" by (rule take_is_prefix)
  then have "prefix (filter (\<lambda>s. ?prio s = k) (take n ?ordered)) (filter (\<lambda>s. ?prio s = k) ?ordered)"
    by (rule filter_mono_prefix)
  then have "prefix (filter (\<lambda>s. ?prio s = k) (mode_adaptive now allProgress n candidates))
      (filter (\<lambda>s. ?prio s = k) candidates)"
    unfolding mode_adaptive_eq scored_sorted(3) .
  with det show ?thesis by blast
qed

lemma progress_map_swap:
  "progress_map [once_wrong ''S1'', once_wrong ''S2'']
     = progress_map [once_wrong ''S2'', once_wrong ''S1'']"
  by (auto simp: progress_map_def once_wrong_eq fun_eq_iff)

theorem mode_adaptive_stable_witness:
  "progress_map [once_wrong ''S1'', once_wrong ''S2'']
     = progress_map [once_wrong ''S2'', once_wrong ''S1'']
   \<and> mode_adaptive 1000 [once_wrong ''S1'', once_wrong ''S2''] 2
         [mk_sign ''S2'', mk_sign ''S0'', mk_sign ''S1'']
       = mode_adaptive 1000 [once_wrong ''S2'', once_wrong ''S1''] 2
         [mk_sign ''S2'', mk_sign ''S0'', mk_sign ''S1'']
   \<and> prefix
        (filter (\<lambda>s. sign_priority 1000 (progress_map [once_wrong ''S1'', once_wrong ''S2'']) s = 18)
           (mode_adaptive 1000 [once_wrong ''S1'', once_wrong ''S2''] 2
              [mk_sign ''S2'', mk_sign ''S0'', mk_sign ''S1'']))
        (filter (\<lambda>s. sign_priority 1000 (progress_map [once_wrong ''S1'', once_wrong ''S2'']) s = 18)
           [mk_sign ''S2'', mk_sign ''S0'', mk_sign ''S1''])"
  using mode_adaptive_stable [where now = 1000
      and allProgress = "[once_wrong ''S1'', once_wrong ''S2'']"
      and allProgress' = "[once_wrong ''S2'', once_wrong ''S1'']" and n = 2 and k = 18
      and candidates = "[mk_sign ''S2'', mk_sign ''S0'', mk_sign ''S1'']"]
    progress_map_swap
  by blast


section \<open>Selection of missed signs\<close>

lemma distinct_mset_subseteq:
  assumes "mset xs \<subseteq># mset ys" and "distinct ys"
  shows "distinct xs"
proof -
  have le: "count (mset xs) a \<le> 1" for a
  proof -
    have "count (mset xs) a \<le> count (mset ys) a"
      using assms(1) by (rule mset_subset_eq_count)
    also have "\<dots> \<le> 1"
      using assms(2) by (simp add: distinct_count_atmost_1)
    finally show ?thesis .
  qed
  have "count (mset xs) a = (if a \<in> set xs then 1 else 0)" for a
  proof (cases "a \<in> set xs")
    case True
    then have nz: "count (mset xs) a \<noteq> 0" by (simp add: count_eq_zero_iff)
    have "count (mset xs) a = 1" using le [of a] nz by linarith
    then show ?thesis using True by simp
  next
    case False
    then show ?thesis by simp
  qed
  then show ?thesis by (simp add: distinct_count_atmost_1)
qed

lemma getLatestQuizSession_latest:
  "(case getLatestQuizSession sessions of
      None \<Rightarrow> sessions = []
    | Some l \<Rightarrow> l \<in> set sessions \<and> list_all (\<lambda>s. session_date s \<le> session_date l) sessions)"
proof (cases "sort_key (\<lambda>s. - session_date s) sessions")
  case Nil
  then have "sessions = []" by (metis length_sort list.size(3) length_0_conv)
  then show ?thesis by (simp add: getLatestQuizSession_def)
next
  case (Cons l rest)
  then have ne: "sessions \<noteq> []" by auto
  have set: "set sessions = set (l # rest)" using Cons by (metis set_sort)
  have "sorted (map (\<lambda>s. - session_date s) (l # rest))"
    using Cons by (metis sorted_sort_key)
  then have "\<forall>s \<in> set rest. session_date s \<le> session_date l" by auto
  with set have "list_all (\<lambda>s. session_date s \<le> session_date l) sessions"
    by (auto simp: list_all_iff)
  moreover have "l \<in> set sessions" using set by simp
  moreover have "getLatestQuizSession sessions = Some l"
    using ne Cons by (simp add: getLatestQuizSession_def)
  ultimately show ?thesis by simp
qed

lemma missed_selected_eq:
  "missed_selected sessions candidates = filter (\<lambda>s. sign_id s \<in> missed_ids sessions) candidates"
  by (auto simp: missed_selected_def missed_ids_def Let_def split: option.split)

lemma remaining_eq:
  "filter (\<lambda>s. \<not> list_ex (\<lambda>sel. sign_id sel = sign_id s) (filter (\<lambda>s. sign_id s \<in> ids) candidates))
     candidates = filter (\<lambda>s. sign_id s \<notin> ids) candidates"
  by (rule filter_cong) (auto simp: list_ex_iff)

lemma mode_missed_eq:
  "mode_missed random sessions n candidates =
     (let selected = filter (\<lambda>s. sign_id s \<in> missed_ids sessions) candidates
      in if length selected < 5
         then selected @ slice0
                (shuffleArray random (filter (\<lambda>s. sign_id s \<notin> missed_ids sessions) candidates))
                (int n - int (length selected))
         else selected)"
  by (simp add: mode_missed_def missed_selected_eq remaining_eq Let_def)

lemma mset_mode_missed:
  assumes "unit_interval random"
  shows "mset (mode_missed random sessions n candidates) \<subseteq># mset candidates"
proof -
  let ?sel = "filter (\<lambda>s. sign_id s \<in> missed_ids sessions) candidates"
  let ?rem = "filter (\<lambda>s. sign_id s \<notin> missed_ids sessions) candidates"
  have part: "mset ?sel + mset ?rem = mset candidates"
    unfolding mset_filter by (rule multiset_partition [symmetric])
  have "mset (slice0 (shuffleArray random ?rem) e) \<subseteq># mset ?rem" for e
    using mset_slice0 [of "shuffleArray random ?rem" e] mset_shuffleArray [OF assms, of ?rem]
    by simp
  then have "mset ?sel + mset (slice0 (shuffleArray random ?rem) e) \<subseteq># mset candidates" for e
    using part by (metis mset_subset_eq_mono_add_left_cancel)
  moreover have "mset ?sel \<subseteq># mset candidates"
    using part by (metis mset_subset_eq_add_left)
  ultimately show ?thesis by (simp add: mode_missed_eq Let_def)
qed

lemma length_mode_missed:
  assumes "unit_interval random"
    and "length (missed_selected sessions candidates) < 5"
    and "length (missed_selected sessions candidates) \<le> n"
  shows "length (mode_missed random sessions n candidates) = min n (length candidates)"
proof -
  let ?sel = "filter (\<lambda>s. sign_id s \<in> missed_ids sessions) candidates"
  let ?rem = "filter (\<lambda>s. sign_id s \<notin> missed_ids sessions) candidates"
  have part: "length ?sel + length ?rem = length candidates"
    by (rule sum_length_filter_compl)
  have small: "length ?sel < 5" and le: "length ?sel \<le> n"
    using assms(2,3) by (simp_all add: missed_selected_eq)
  have "length (slice0 (shuffleArray random ?rem) (int n - int (length ?sel)))
      = min (n - length ?sel) (length ?rem)"
    using le by (simp add: length_slice0_nonneg length_shuffleArray [OF assms(1)] nat_diff_distrib')
  then have "length (mode_missed random sessions n candidates)
      = length ?sel + min (n - length ?sel) (length ?rem)"
    using small by (simp add: mode_missed_eq Let_def)
  with part le show ?thesis by linarith
qed

lemma length_pool10: "length pool10 = 10"
  by (simp add: pool10_def)

lemma three_missed:
  "missed_selected [session_with 1 [''S7'', ''S8''], session_with 2 [''S0'', ''S1'', ''S2'']] pool10
     = map mk_sign [''S0'', ''S1'', ''S2'']"
  by (simp add: missed_selected_def getLatestQuizSession_def session_with_def pool10_def
      mk_sign_def Let_def)

lemma five_missed:
  "missed_selected [session_with 1 [''S0'', ''S1'', ''S2'', ''S3'', ''S4'']] pool10
     = map mk_sign [''S0'', ''S1'', ''S2'', ''S3'', ''S4'']"
  by (simp add: missed_selected_def getLatestQuizSession_def session_with_def pool10_def
      mk_sign_def Let_def)


text \<open>
  Claim C7, as the specification states it, fails: the selection is filled up only when
  fewer than five missed signs were found. With five missed signs in a pool of ten and a
  target of ten, the selection has five items.
\<close>

theorem mode_missed_counterexample:
  "length (mode_missed rnd0 [session_with 1 [''S0'', ''S1'', ''S2'', ''S3'', ''S4'']] 10 pool10)
     \<noteq> min 10 (length pool10)"
  by (simp add: mode_missed_def five_missed Let_def length_pool10)


text \<open>
  Claim C7, amended. For every stream of random numbers in \<open>[0, 1)\<close>: the primary
  selection is the pool filtered by the ids of the wrong answers of the latest session (the
  session with the greatest date); the result starts with it and takes every item from the
  pool, with no id twice when the pool has no id twice; with five or more missed signs the
  result is the primary selection; with fewer than five, and no more than the target count,
  the result has exactly \<open>min n (length candidates)\<close> items.
\<close>

theorem mode_missed_selection:
  "unit_interval random \<Longrightarrow>
   (let primary = missed_selected sessions candidates;
        result = mode_missed random sessions n candidates
    in primary = filter (\<lambda>s. sign_id s \<in> missed_ids sessions) candidates
       \<and> (case getLatestQuizSession sessions of
             None \<Rightarrow> sessions = []
           | Some l \<Rightarrow> l \<in> set sessions
               \<and> list_all (\<lambda>s. session_date s \<le> session_date l) sessions)
       \<and> prefix primary result
       \<and> mset result \<subseteq># mset candidates
       \<and> (distinct (map sign_id candidates) \<longrightarrow> distinct (map sign_id result))
       \<and> (5 \<le> length primary \<longrightarrow> result = primary)
       \<and> (length primary < 5 \<and> length primary \<le> n \<longrightarrow>
            length result = min n (length candidates)))"
proof -
  assume rnd: "unit_interval random"
  let ?primary = "missed_selected sessions candidates"
  let ?result = "mode_missed random sessions n candidates"
  have pre: "prefix ?primary ?result"
    by (simp add: mode_missed_def Let_def)
  have sub: "mset ?result \<subseteq># mset candidates"
    using rnd by (rule mset_mode_missed)
  have dist: "distinct (map sign_id ?result)" if d: "distinct (map sign_id candidates)"
  proof -
    from sub have "image_mset sign_id (mset ?result) \<subseteq># image_mset sign_id (mset candidates)"
      by (rule image_mset_subseteq_mono)
    then have "mset (map sign_id ?result) \<subseteq># mset (map sign_id candidates)" by simp
    then show ?thesis using d by (rule distinct_mset_subseteq)
  qed
  have big: "?result = ?primary" if "5 \<le> length ?primary"
    using that by (simp add: mode_missed_def Let_def)
  have len: "length ?result = min n (length candidates)"
    if "length ?primary < 5 \<and> length ?primary \<le> n"
    using rnd that by (intro length_mode_missed) simp_all
  show ?thesis
    unfolding Let_def
  proof (intro conjI impI)
    show "?primary = filter (\<lambda>s. sign_id s \<in> missed_ids sessions) candidates"
      by (rule missed_selected_eq)
    show "case getLatestQuizSession sessions of
            None \<Rightarrow> sessions = []
          | Some l \<Rightarrow> l \<in> set sessions
              \<and> list_all (\<lambda>s. session_date s \<le> session_date l) sessions"
      by (rule getLatestQuizSession_latest)
    show "prefix ?primary ?result" by (rule pre)
    show "mset ?result \<subseteq># mset candidates" by (rule sub)
    show "distinct (map sign_id ?result)" if "distinct (map sign_id candidates)"
      using that by (rule dist)
    show "?result = ?primary" if "5 \<le> length ?primary"
      using that by (rule big)
    show "length ?result = min n (length candidates)"
      if "length ?primary < 5 \<and> length ?primary \<le> n"
      using that by (rule len)
  qed
qed

theorem mode_missed_selection_witness:
  "unit_interval rnd0
   \<and> missed_selected [session_with 1 [''S7'', ''S8''], session_with 2 [''S0'', ''S1'', ''S2'']] pool10
       = map mk_sign [''S0'', ''S1'', ''S2'']
   \<and> length pool10 = 10
   \<and> length (mode_missed rnd0
         [session_with 1 [''S7'', ''S8''], session_with 2 [''S0'', ''S1'', ''S2'']] 10 pool10) = 10
   \<and> distinct (map sign_id (mode_missed rnd0
         [session_with 1 [''S7'', ''S8''], session_with 2 [''S0'', ''S1'', ''S2'']] 10 pool10))
   \<and> prefix (map mk_sign [''S0'', ''S1'', ''S2'']) (mode_missed rnd0
         [session_with 1 [''S7'', ''S8''], session_with 2 [''S0'', ''S1'', ''S2'']] 10 pool10)"
proof -
  have rnd: "unit_interval rnd0" by (simp add: unit_interval_def rnd0_def)
  have d: "distinct (map sign_id pool10)" by (simp add: pool10_def mk_sign_def)
  have l: "length pool10 = 10" by (simp add: pool10_def)
  note t = mode_missed_selection [OF rnd,
      of "[session_with 1 [''S7'', ''S8''], session_with 2 [''S0'', ''S1'', ''S2'']]" pool10 10,
      unfolded Let_def three_missed]
  have small: "length (map mk_sign [''S0'', ''S1'', ''S2'']) < 5
      \<and> length (map mk_sign [''S0'', ''S1'', ''S2'']) \<le> 10" by simp
  from t small have "length (mode_missed rnd0
      [session_with 1 [''S7'', ''S8''], session_with 2 [''S0'', ''S1'', ''S2'']] 10 pool10)
      = min 10 (length pool10)" by blast
  moreover from t d have "distinct (map sign_id (mode_missed rnd0
      [session_with 1 [''S7'', ''S8''], session_with 2 [''S0'', ''S1'', ''S2'']] 10 pool10))"
    by blast
  moreover from t have "prefix (map mk_sign [''S0'', ''S1'', ''S2'']) (mode_missed rnd0
      [session_with 1 [''S7'', ''S8''], session_with 2 [''S0'', ''S1'', ''S2'']] 10 pool10)"
    by blast
  ultimately show ?thesis using rnd l three_missed by simp
qed


section \<open>Starting a quiz\<close>

lemma candidate_pool_resetQuizState: "candidate_pool (resetQuizState now st) = candidate_pool st"
  by (simp add: candidate_pool_def category_signs_def resetQuizState_def)

lemma demo_pool:
  "candidate_pool demo_state = Inr [mk_sign ''S0'', mk_sign ''S1'', mk_sign ''S2'']"
  by (simp add: candidate_pool_def category_signs_def demo_state_def initial_state_def
      filterByDifficulty_def mk_sign_def)

lemma demo_settings:
  "selectedCategories demo_state = [''A'']" "difficulty demo_state = ''adaptive''"
  "quizMode demo_state = ''standard''" "questionsPerQuiz demo_state = 15"
  by (simp_all add: demo_state_def initial_state_def)

lemma shuffle_demo:
  "shuffleArray rnd0 [mk_sign ''S0'', mk_sign ''S1'', mk_sign ''S2'']
     = [mk_sign ''S1'', mk_sign ''S2'', mk_sign ''S0'']"
  by (simp add: shuffleArray_def rnd0_def Let_def)

text \<open>
  The filter throws exactly for an inherited name and a category selection with a sign.
\<close>

lemma candidate_pool_rejects:
  "(candidate_pool st = Inl e) =
     (e = TypeError \<and> difficulty st \<in> set inherited_keys \<and> category_signs st \<noteq> [])"
proof (cases "difficulty st = ''adaptive''")
  case True
  then show ?thesis
    by (simp add: candidate_pool_def filterByDifficulty_def inherited_keys_def)
next
  case False
  then show ?thesis
    by (auto simp: candidate_pool_def filterByDifficulty_def Let_def)
qed

text \<open>
  The selection throws exactly when the filter throws or the read of its branch fails.
\<close>

lemma selectQuizSigns_rejects:
  "(selectQuizSigns now random allProgress sessions st = Inl e) =
     (candidate_pool st = Inl e \<or>
      (\<exists>c. candidate_pool st = Inr c) \<and>
      (quizMode st = ''missed'' \<and> sessions = Inl e \<or>
       quizMode st \<in> {''weakest'', ''spaced'', ''adaptive''} \<and> allProgress = Inl e))"
proof (cases "candidate_pool st")
  case (Inl e')
  then show ?thesis by (simp add: selectQuizSigns_def)
next
  case (Inr c)
  then show ?thesis
    by (cases sessions; cases allProgress) (simp_all add: selectQuizSigns_def Let_def)
qed

lemma selectQuizSigns_state:
  "selectQuizSigns now random allProgress sessions st = Inr st' \<Longrightarrow>
   st' = st\<lparr>quizSigns := quizSigns st'\<rparr>"
  by (auto simp: selectQuizSigns_def Let_def split: sum.splits if_splits)

lemma selectQuizSigns_standard:
  "candidate_pool st = Inr c \<Longrightarrow>
   quizMode st \<notin> {''missed'', ''weakest'', ''spaced'', ''adaptive''} \<Longrightarrow>
   selectQuizSigns now random allProgress sessions st =
     Inr (st\<lparr>quizSigns := mode_standard random (questionsPerQuiz st) c\<rparr>)"
  by (simp add: selectQuizSigns_def Let_def)

lemma selectQuizSigns_adaptive:
  "candidate_pool st = Inr c \<Longrightarrow> quizMode st = ''adaptive'' \<Longrightarrow> allProgress = Inr records \<Longrightarrow>
   selectQuizSigns now random allProgress sessions st =
     Inr (st\<lparr>quizSigns := mode_adaptive now records (questionsPerQuiz st) c\<rparr>)"
  by (simp add: selectQuizSigns_def Let_def)

lemma selectQuizSigns_empty_pool:
  "candidate_pool st = Inr [] \<Longrightarrow> selectQuizSigns now random allProgress sessions st = Inr st' \<Longrightarrow>
   quizSigns st' = []"
  by (auto simp: selectQuizSigns_def Let_def mode_missed_eq mode_weakest_def mode_spaced_def
      mode_adaptive_eq mode_standard_def shuffleArray_Nil slice0_Nil split: sum.splits if_splits)

lemma mode_standard_Nil:
  "unit_interval random \<Longrightarrow> (mode_standard random n c = []) = (c = [] \<or> n = 0)"
proof -
  assume "unit_interval random"
  then have "length (mode_standard random n c) = min n (length c)"
    by (simp add: mode_standard_def slice0_nat length_shuffleArray)
  then show ?thesis by (metis length_0_conv min_0L min_0R min_def)
qed

lemma mode_adaptive_Nil: "(mode_adaptive now records n c = []) = (c = [] \<or> n = 0)"
proof -
  have "length (mode_adaptive now records n c) = min n (length c)"
    by (simp add: mode_adaptive_eq min.commute)
  then show ?thesis by (metis length_0_conv min_0L min_0R min_def)
qed

lemma startQuiz_none:
  "selectedCategories st = [] \<Longrightarrow>
   startQuiz now random allProgress sessions st = (Promise (Inr False), st)"
  by (simp add: startQuiz_def)

lemma startQuiz_some:
  "selectedCategories st \<noteq> [] \<Longrightarrow>
   startQuiz now random allProgress sessions st =
     (case selectQuizSigns now random allProgress sessions (resetQuizState now st) of
        Inl e \<Rightarrow> (Promise (Inl e), resetQuizState now st)
      | Inr st' \<Rightarrow> (Promise (Inr (quizSigns st' \<noteq> [])), st'))"
  by (simp add: startQuiz_def Let_def split: sum.split)

lemma resetQuizState_no_signs:
  "(resetQuizState now st)\<lparr>quizSigns := []\<rparr> = resetQuizState now st"
  by (simp add: resetQuizState_def)


text \<open>
  Claim C9, as the specification states it, fails. \<open>startQuiz\<close> is asynchronous: with no
  category selected the value that a call returns is a promise, which is truthy, not the
  boolean \<open>false\<close>; and with a category selected, in adaptive mode, a failing read of the
  progress store makes the promise reject, so the result is not \<open>true\<close> either.
\<close>

theorem startQuiz_sync_counterexample:
  "ToBoolean (fst (startQuiz 1000 rnd0 (Inr []) (Inr []) (demo_state\<lparr>selectedCategories := []\<rparr>)))
   \<and> await (fst (startQuiz 1000 rnd0 (Inl StoreError) (Inr [])
         (demo_state\<lparr>quizMode := ''adaptive''\<rparr>))) = Inl StoreError"
proof -
  have "selectedCategories (demo_state\<lparr>quizMode := ''adaptive''\<rparr>) \<noteq> []"
    by (simp add: demo_state_def)
  moreover have "candidate_pool (resetQuizState 1000 (demo_state\<lparr>quizMode := ''adaptive''\<rparr>))
      = Inr [mk_sign ''S0'', mk_sign ''S1'', mk_sign ''S2'']"
    by (simp add: candidate_pool_def category_signs_def resetQuizState_def demo_state_def
        initial_state_def filterByDifficulty_def mk_sign_def)
  moreover have "quizMode (resetQuizState 1000 (demo_state\<lparr>quizMode := ''adaptive''\<rparr>)) = ''adaptive''"
    by (simp add: resetQuizState_def)
  ultimately have "selectQuizSigns 1000 rnd0 (Inl StoreError) (Inr [])
      (resetQuizState 1000 (demo_state\<lparr>quizMode := ''adaptive''\<rparr>)) = Inl StoreError"
    by (simp add: selectQuizSigns_rejects)
  then have "await (fst (startQuiz 1000 rnd0 (Inl StoreError) (Inr [])
      (demo_state\<lparr>quizMode := ''adaptive''\<rparr>))) = Inl StoreError"
    by (simp add: startQuiz_some demo_state_def)
  moreover have "ToBoolean (fst (startQuiz 1000 rnd0 (Inr []) (Inr [])
      (demo_state\<lparr>selectedCategories := []\<rparr>)))"
    by (simp add: startQuiz_none)
  ultimately show ?thesis by simp
qed

text \<open>
  Claim C9, amended. A call of \<open>startQuiz\<close> returns a promise, which is truthy; the caller
  reads the result with \<open>await\<close>. With no category selected the promise resolves to
  \<open>False\<close> and the state is left as it was. With a category selected, the promise resolves
  to \<open>False\<close> exactly when the selection is computed and empty, to \<open>True\<close> exactly when it
  is computed and not empty (the state then holds it), and it rejects exactly when the
  selection throws: when the difficulty filter throws (an inherited name as difficulty and a
  sign in the selected categories) or the read of the store that the quiz mode needs fails.
  Whenever a category is selected and the promise does not resolve to \<open>True\<close>, the state
  is the reset quiz state. An empty candidate pool never gives \<open>True\<close>; in the default
  mode (for random numbers in \<open>[0, 1)\<close>) and in adaptive mode with a readable progress
  store, the promise resolves to \<open>True\<close> exactly when the pool is not empty and the
  number of questions is not zero.
\<close>

theorem startQuiz_promise:
  "(let r = startQuiz now random allProgress sessions st;
        sel = selectQuizSigns now random allProgress sessions (resetQuizState now st)
    in ToBoolean (fst r)
       \<and> (selectedCategories st = [] \<longrightarrow> await (fst r) = Inr False \<and> snd r = st)
       \<and> (selectedCategories st \<noteq> [] \<longrightarrow>
            (await (fst r) = Inr False) = (\<exists>st'. sel = Inr st' \<and> quizSigns st' = []))
       \<and> (selectedCategories st \<noteq> [] \<longrightarrow>
            (await (fst r) = Inr True) = (\<exists>st'. sel = Inr st' \<and> quizSigns st' \<noteq> [] \<and> snd r = st'))
       \<and> (selectedCategories st \<noteq> [] \<longrightarrow> (await (fst r) = Inl e) = (sel = Inl e))
       \<and> (selectedCategories st \<noteq> [] \<and> await (fst r) \<noteq> Inr True \<longrightarrow>
            snd r = resetQuizState now st)
       \<and> (sel = Inl e) =
            (candidate_pool st = Inl e \<or>
             (\<exists>c. candidate_pool st = Inr c) \<and>
             (quizMode st = ''missed'' \<and> sessions = Inl e \<or>
              quizMode st \<in> {''weakest'', ''spaced'', ''adaptive''} \<and> allProgress = Inl e))
       \<and> (candidate_pool st = Inl e) =
            (e = TypeError \<and> difficulty st \<in> set inherited_keys \<and> category_signs st \<noteq> [])
       \<and> (selectedCategories st \<noteq> [] \<and> candidate_pool st = Inr [] \<longrightarrow>
            await (fst r) \<noteq> Inr True)
       \<and> (selectedCategories st \<noteq> [] \<and> unit_interval random \<and> candidate_pool st = Inr c \<and>
          quizMode st \<notin> {''missed'', ''weakest'', ''spaced'', ''adaptive''} \<longrightarrow>
            await (fst r) = Inr (c \<noteq> [] \<and> questionsPerQuiz st \<noteq> 0))
       \<and> (selectedCategories st \<noteq> [] \<and> candidate_pool st = Inr c \<and>
          quizMode st = ''adaptive'' \<and> allProgress = Inr records \<longrightarrow>
            await (fst r) = Inr (c \<noteq> [] \<and> questionsPerQuiz st \<noteq> 0)))"
proof -
  define r where "r = startQuiz now random allProgress sessions st"
  define sel where "sel = selectQuizSigns now random allProgress sessions (resetQuizState now st)"
  let ?reset = "resetQuizState now st"
  have pool: "candidate_pool ?reset = candidate_pool st"
    by (rule candidate_pool_resetQuizState)
  have mode: "quizMode ?reset = quizMode st" and count: "questionsPerQuiz ?reset = questionsPerQuiz st"
    by (simp_all add: resetQuizState_def)
  have none: "r = (Promise (Inr False), st)" if "selectedCategories st = []"
    unfolding r_def using that by (rule startQuiz_none)
  have some: "r = (case sel of
        Inl e \<Rightarrow> (Promise (Inl e), ?reset)
      | Inr st' \<Rightarrow> (Promise (Inr (quizSigns st' \<noteq> [])), st'))"
    if "selectedCategories st \<noteq> []"
    unfolding r_def sel_def using that by (rule startQuiz_some)
  have c1: "ToBoolean (fst r)"
    by (cases "fst r") simp
  have c2: "await (fst r) = Inr False \<and> snd r = st" if "selectedCategories st = []"
    using none [OF that] by simp
  have c3: "(await (fst r) = Inr False) = (\<exists>st'. sel = Inr st' \<and> quizSigns st' = [])"
    if "selectedCategories st \<noteq> []"
    using some [OF that] by (cases sel) simp_all
  have c4: "(await (fst r) = Inr True) = (\<exists>st'. sel = Inr st' \<and> quizSigns st' \<noteq> [] \<and> snd r = st')"
    if "selectedCategories st \<noteq> []"
    using some [OF that] by (cases sel) auto
  have c5: "(await (fst r) = Inl e) = (sel = Inl e)" if "selectedCategories st \<noteq> []"
    using some [OF that] by (cases sel) simp_all
  have c6: "snd r = ?reset" if "selectedCategories st \<noteq> [] \<and> await (fst r) \<noteq> Inr True"
  proof (cases sel)
    case (Inl e')
    then show ?thesis using some that by simp
  next
    case (Inr st')
    with some that have empty: "quizSigns st' = []" and r: "snd r = st'" by simp_all
    from Inr have "st' = ?reset\<lparr>quizSigns := quizSigns st'\<rparr>"
      unfolding sel_def by (rule selectQuizSigns_state)
    with empty have "st' = ?reset" by (simp add: resetQuizState_no_signs)
    with r show ?thesis by simp
  qed
  have c7: "(sel = Inl e) =
      (candidate_pool st = Inl e \<or>
       (\<exists>c. candidate_pool st = Inr c) \<and>
       (quizMode st = ''missed'' \<and> sessions = Inl e \<or>
        quizMode st \<in> {''weakest'', ''spaced'', ''adaptive''} \<and> allProgress = Inl e))"
    unfolding sel_def selectQuizSigns_rejects pool mode ..
  have c8: "(candidate_pool st = Inl e) =
      (e = TypeError \<and> difficulty st \<in> set inherited_keys \<and> category_signs st \<noteq> [])"
    by (rule candidate_pool_rejects)
  have c9: "await (fst r) \<noteq> Inr True"
    if "selectedCategories st \<noteq> [] \<and> candidate_pool st = Inr []"
  proof (cases sel)
    case (Inl e')
    then show ?thesis using some that by simp
  next
    case (Inr st')
    from that have "candidate_pool ?reset = Inr []" by (simp add: pool)
    then have "quizSigns st' = []"
      using Inr unfolding sel_def by (rule selectQuizSigns_empty_pool)
    then show ?thesis using some that Inr by simp
  qed
  have c10: "await (fst r) = Inr (c \<noteq> [] \<and> questionsPerQuiz st \<noteq> 0)"
    if h: "selectedCategories st \<noteq> [] \<and> unit_interval random \<and> candidate_pool st = Inr c \<and>
      quizMode st \<notin> {''missed'', ''weakest'', ''spaced'', ''adaptive''}"
  proof -
    from h have "sel = Inr (?reset\<lparr>quizSigns := mode_standard random (questionsPerQuiz ?reset) c\<rparr>)"
      unfolding sel_def by (intro selectQuizSigns_standard) (simp_all add: pool mode)
    then have "await (fst r) = Inr (mode_standard random (questionsPerQuiz st) c \<noteq> [])"
      using some h by (simp add: count)
    with h show ?thesis by (simp add: mode_standard_Nil)
  qed
  have c11: "await (fst r) = Inr (c \<noteq> [] \<and> questionsPerQuiz st \<noteq> 0)"
    if h: "selectedCategories st \<noteq> [] \<and> candidate_pool st = Inr c \<and>
      quizMode st = ''adaptive'' \<and> allProgress = Inr records"
  proof -
    from h have "sel = Inr (?reset\<lparr>quizSigns := mode_adaptive now records (questionsPerQuiz ?reset) c\<rparr>)"
      unfolding sel_def by (intro selectQuizSigns_adaptive) (simp_all add: pool mode)
    then have "await (fst r) = Inr (mode_adaptive now records (questionsPerQuiz st) c \<noteq> [])"
      using some h by (simp add: count)
    then show ?thesis by (simp add: mode_adaptive_Nil)
  qed
  show ?thesis
    unfolding Let_def r_def [symmetric] sel_def [symmetric]
  proof (intro conjI impI)
    show "ToBoolean (fst r)" by (rule c1)
    show "await (fst r) = Inr False" if "selectedCategories st = []"
      using c2 [OF that] by (rule conjunct1)
    show "snd r = st" if "selectedCategories st = []"
      using c2 [OF that] by (rule conjunct2)
    show "(await (fst r) = Inr False) = (\<exists>st'. sel = Inr st' \<and> quizSigns st' = [])"
      if "selectedCategories st \<noteq> []"
      using that by (rule c3)
    show "(await (fst r) = Inr True) = (\<exists>st'. sel = Inr st' \<and> quizSigns st' \<noteq> [] \<and> snd r = st')"
      if "selectedCategories st \<noteq> []"
      using that by (rule c4)
    show "(await (fst r) = Inl e) = (sel = Inl e)" if "selectedCategories st \<noteq> []"
      using that by (rule c5)
    show "snd r = ?reset" if "selectedCategories st \<noteq> [] \<and> await (fst r) \<noteq> Inr True"
      using that by (rule c6)
    show "(sel = Inl e) =
      (candidate_pool st = Inl e \<or>
       (\<exists>c. candidate_pool st = Inr c) \<and>
       (quizMode st = ''missed'' \<and> sessions = Inl e \<or>
        quizMode st \<in> {''weakest'', ''spaced'', ''adaptive''} \<and> allProgress = Inl e))"
      by (rule c7)
    show "(candidate_pool st = Inl e) =
      (e = TypeError \<and> difficulty st \<in> set inherited_keys \<and> category_signs st \<noteq> [])"
      by (rule c8)
    show "await (fst r) \<noteq> Inr True"
      if "selectedCategories st \<noteq> [] \<and> candidate_pool st = Inr []"
      using that by (rule c9)
    show "await (fst r) = Inr (c \<noteq> [] \<and> questionsPerQuiz st \<noteq> 0)"
      if "selectedCategories st \<noteq> [] \<and> unit_interval random \<and> candidate_pool st = Inr c \<and>
        quizMode st \<notin> {''missed'', ''weakest'', ''spaced'', ''adaptive''}"
      using that by (rule c10)
    show "await (fst r) = Inr (c \<noteq> [] \<and> questionsPerQuiz st \<noteq> 0)"
      if "selectedCategories st \<noteq> [] \<and> candidate_pool st = Inr c \<and>
        quizMode st = ''adaptive'' \<and> allProgress = Inr records"
      using that by (rule c11)
  qed
qed


theorem startQuiz_promise_witness:
  "await (fst (startQuiz 1000 rnd0 (Inr []) (Inr []) demo_state)) = Inr True
   \<and> await (fst (startQuiz 1000 rnd0 (Inr []) (Inr []) (demo_state\<lparr>selectedCategories := []\<rparr>)))
       = Inr False
   \<and> snd (startQuiz 1000 rnd0 (Inr []) (Inr []) (demo_state\<lparr>selectedCategories := []\<rparr>))
       = demo_state\<lparr>selectedCategories := []\<rparr>
   \<and> await (fst (startQuiz 1000 rnd0 (Inr []) (Inr []) (demo_state\<lparr>selectedCategories := [''Z'']\<rparr>)))
       = Inr False
   \<and> snd (startQuiz 1000 rnd0 (Inr []) (Inr []) (demo_state\<lparr>selectedCategories := [''Z'']\<rparr>))
       = resetQuizState 1000 (demo_state\<lparr>selectedCategories := [''Z'']\<rparr>)
   \<and> await (fst (startQuiz 1000 rnd0 (Inl StoreError) (Inr [])
         (demo_state\<lparr>quizMode := ''adaptive''\<rparr>))) = Inl StoreError
   \<and> await (fst (startQuiz 1000 rnd0 (Inr []) (Inr [])
         (demo_state\<lparr>difficulty := ''constructor''\<rparr>))) = Inl TypeError"
proof -
  have rnd: "unit_interval rnd0" by (simp add: unit_interval_def rnd0_def)
  have std: "quizMode s \<notin> {''missed'', ''weakest'', ''spaced'', ''adaptive''}"
    if "quizMode s = ''standard''" for s
    using that by simp
  \<comment> \<open>a quiz starts\<close>
  have a_cats: "selectedCategories demo_state \<noteq> []" by (simp add: demo_settings)
  have a_mode: "quizMode demo_state \<notin> {''missed'', ''weakest'', ''spaced'', ''adaptive''}"
    by (rule std) (rule demo_settings)
  note a = startQuiz_promise [where now = 1000 and random = rnd0 and allProgress = "Inr []"
      and sessions = "Inr []" and st = demo_state
      and c = "[mk_sign ''S0'', mk_sign ''S1'', mk_sign ''S2'']", unfolded Let_def]
  from a a_cats rnd demo_pool a_mode
  have "await (fst (startQuiz 1000 rnd0 (Inr []) (Inr []) demo_state))
      = Inr ([mk_sign ''S0'', mk_sign ''S1'', mk_sign ''S2''] \<noteq> [] \<and> questionsPerQuiz demo_state \<noteq> 0)"
    by blast
  then have w1: "await (fst (startQuiz 1000 rnd0 (Inr []) (Inr []) demo_state)) = Inr True"
    by (simp add: demo_settings)
  \<comment> \<open>no category selected\<close>
  let ?none = "demo_state\<lparr>selectedCategories := []\<rparr>"
  have b_cats: "selectedCategories ?none = []" by simp
  note b = startQuiz_promise [where now = 1000 and random = rnd0 and allProgress = "Inr []"
      and sessions = "Inr []" and st = ?none, unfolded Let_def]
  from b b_cats
  have w2: "await (fst (startQuiz 1000 rnd0 (Inr []) (Inr []) ?none)) = Inr False"
    and w3: "snd (startQuiz 1000 rnd0 (Inr []) (Inr []) ?none) = ?none"
    by blast+
  \<comment> \<open>a category without signs\<close>
  let ?z = "demo_state\<lparr>selectedCategories := [''Z'']\<rparr>"
  have z_cats: "selectedCategories ?z \<noteq> []" by simp
  have z_pool: "candidate_pool ?z = Inr []"
    by (simp add: candidate_pool_def category_signs_def demo_state_def initial_state_def
        filterByDifficulty_def)
  have z_mode: "quizMode ?z \<notin> {''missed'', ''weakest'', ''spaced'', ''adaptive''}"
    by (rule std) (simp add: demo_settings)
  note z = startQuiz_promise [where now = 1000 and random = rnd0 and allProgress = "Inr []"
      and sessions = "Inr []" and st = ?z and c = "[]", unfolded Let_def]
  from z z_cats rnd z_pool z_mode
  have "await (fst (startQuiz 1000 rnd0 (Inr []) (Inr []) ?z))
      = Inr (([] :: sign list) \<noteq> [] \<and> questionsPerQuiz ?z \<noteq> 0)"
    by blast
  then have w4: "await (fst (startQuiz 1000 rnd0 (Inr []) (Inr []) ?z)) = Inr False"
    by simp
  then have "await (fst (startQuiz 1000 rnd0 (Inr []) (Inr []) ?z)) \<noteq> Inr True"
    by simp
  with z z_cats
  have w5: "snd (startQuiz 1000 rnd0 (Inr []) (Inr []) ?z) = resetQuizState 1000 ?z"
    by blast
  \<comment> \<open>the progress store cannot be read\<close>
  let ?ad = "demo_state\<lparr>quizMode := ''adaptive''\<rparr>"
  have ad_cats: "selectedCategories ?ad \<noteq> []" by (simp add: demo_settings)
  have ad_pool: "candidate_pool ?ad = Inr [mk_sign ''S0'', mk_sign ''S1'', mk_sign ''S2'']"
    using demo_pool by (simp add: candidate_pool_def category_signs_def)
  have ad_mode: "quizMode ?ad \<in> {''weakest'', ''spaced'', ''adaptive''}" by simp
  note ad = startQuiz_promise [where now = 1000 and random = rnd0
      and allProgress = "Inl StoreError" and sessions = "Inr []" and st = ?ad
      and e = StoreError, unfolded Let_def]
  from ad ad_cats ad_pool ad_mode
  have w6: "await (fst (startQuiz 1000 rnd0 (Inl StoreError) (Inr []) ?ad)) = Inl StoreError"
    by blast
  \<comment> \<open>the difficulty is an inherited name\<close>
  let ?ty = "demo_state\<lparr>difficulty := ''constructor''\<rparr>"
  have ty_cats: "selectedCategories ?ty \<noteq> []" by (simp add: demo_settings)
  have ty_key: "difficulty ?ty \<in> set inherited_keys" by (simp add: inherited_keys_def)
  have ty_signs: "category_signs ?ty \<noteq> []"
    by (simp add: category_signs_def demo_state_def initial_state_def)
  note ty = startQuiz_promise [where now = 1000 and random = rnd0 and allProgress = "Inr []"
      and sessions = "Inr []" and st = ?ty and e = TypeError, unfolded Let_def]
  from ty ty_cats ty_key ty_signs
  have w7: "await (fst (startQuiz 1000 rnd0 (Inr []) (Inr []) ?ty)) = Inl TypeError"
    by blast
  from w1 w2 w3 w4 w5 w6 w7 show ?thesis by (intro conjI)
qed


section \<open>The best streak of a stored session\<close>

lemma finishQuiz_appends:
  "fst (snd (finishQuiz now st sessions stats)) =
     sessions @ [last (fst (snd (finishQuiz now st sessions stats)))]"
  by (simp add: finishQuiz_def Let_def saveQuizSession_def)

lemma finishQuiz_bestStreak:
  "session_bestStreak (last (fst (snd (finishQuiz now st sessions stats))))
     = max (streak st) (bestStreak st)"
  by (simp add: finishQuiz_def Let_def saveQuizSession_def)

lemma finishQuiz_sessions:
  "map session_bestStreak (fst (snd (finishQuiz now st sessions stats)))
     = map session_bestStreak sessions @ [max (streak st) (bestStreak st)]"
  by (simp add: finishQuiz_def Let_def saveQuizSession_def)

lemma resetQuizState_bestStreak: "bestStreak (resetQuizState now st) = bestStreak st"
  by (simp add: resetQuizState_def)

lemma loadSettings_bestStreak:
  "bestStreak (loadSettings (Some parsed) st) = set_bestStreak parsed"
  by (simp add: loadSettings_def)

lemma updateStreak_bestStreak:
  "bestStreak (fst (updateStreak isCorrect (st, stored))) =
     (if isCorrect then max (streak st + 1) (bestStreak st) else bestStreak st)"
  by (simp add: updateStreak_def Let_def)

lemma started_demo:
  assumes "signData st = signData demo_state" and "selectedCategories st = [''A'']"
    and "difficulty st = ''adaptive''" and "quizMode st = ''standard''"
    and "questionsPerQuiz st = 15"
  shows "startQuiz now rnd0 allProgress sessions st =
     (Promise (Inr True),
      st\<lparr>quizSigns := [mk_sign ''S1'', mk_sign ''S2'', mk_sign ''S0''], currentQuestion := 0,
        correctAnswers := 0, streak := 0, wrongAnswers := [], quizStartTime := Some now,
        quizEndTime := None\<rparr>)"
proof -
  have pool: "candidate_pool (resetQuizState now st)
      = Inr [mk_sign ''S0'', mk_sign ''S1'', mk_sign ''S2'']"
    using assms(1,2,3)
    by (simp add: candidate_pool_def category_signs_def resetQuizState_def demo_state_def
        filterByDifficulty_def mk_sign_def)
  have mode: "quizMode (resetQuizState now st) = ''standard''"
    and count: "questionsPerQuiz (resetQuizState now st) = 15"
    using assms(4,5) by (simp_all add: resetQuizState_def)
  have "selectQuizSigns now rnd0 allProgress sessions (resetQuizState now st)
      = Inr ((resetQuizState now st)\<lparr>quizSigns := [mk_sign ''S1'', mk_sign ''S2'', mk_sign ''S0'']\<rparr>)"
    by (simp add: selectQuizSigns_def pool mode count Let_def mode_standard_def shuffle_demo
        slice0_nat)
  then show ?thesis
    using assms(2) by (simp add: startQuiz_def Let_def resetQuizState_def)
qed

lemma first_start:
  "snd (startQuiz 1000 rnd0 (Inr []) (Inr []) demo_state) =
     demo_state\<lparr>quizSigns := [mk_sign ''S1'', mk_sign ''S2'', mk_sign ''S0''], currentQuestion := 0,
        correctAnswers := 0, streak := 0, wrongAnswers := [], quizStartTime := Some 1000,
        quizEndTime := None\<rparr>"
  using started_demo [OF refl demo_settings, of 1000 "Inr []" "Inr []"] by simp

lemma first_quiz_streaks:
  "map (\<lambda>w. streak (fst w)) first_quiz = [1, 2, 3]"
  unfolding first_quiz_def first_start
  by (simp add: demo_state_def initial_state_def checkAnswer_def updateStreak_def
       saveSettings_def nextQuestion_def Let_def)

lemma first_quiz_last:
  "snd (last first_quiz) =
     Some \<lparr>set_questionsPerQuiz = 15, set_shuffleOptions = True, set_showCategoryInfo = True,
           set_questionType = ''mixed'', set_quizMode = ''standard'',
           set_difficulty = ''adaptive'', set_bestStreak = 3\<rparr>"
  "streak (fst (last first_quiz)) = 3" "bestStreak (fst (last first_quiz)) = 3"
  unfolding first_quiz_def first_start
  by (simp_all add: demo_state_def initial_state_def checkAnswer_def updateStreak_def
       saveSettings_def nextQuestion_def Let_def)

lemma reloaded: "loadSettings (snd (last first_quiz)) demo_state = demo_state\<lparr>bestStreak := 3\<rparr>"
  unfolding first_quiz_last(1)
  by (simp add: loadSettings_def demo_state_def initial_state_def)

lemma second_start:
  "snd (startQuiz 3000 rnd0 (Inr []) (Inr first_sessions) (demo_state\<lparr>bestStreak := 3\<rparr>)) =
     demo_state\<lparr>bestStreak := 3,
        quizSigns := [mk_sign ''S1'', mk_sign ''S2'', mk_sign ''S0''], currentQuestion := 0,
        correctAnswers := 0, streak := 0, wrongAnswers := [], quizStartTime := Some 3000,
        quizEndTime := None\<rparr>"
  using started_demo [of "demo_state\<lparr>bestStreak := 3\<rparr>" 3000 "Inr []" "Inr first_sessions"]
    demo_settings
  by simp

lemma second_quiz_streaks:
  "map (\<lambda>w. streak (fst w)) second_quiz = [1, 0, 1]"
  unfolding second_quiz_def reloaded second_start
  by (simp add: demo_state_def initial_state_def checkAnswer_def updateStreak_def
       saveSettings_def nextQuestion_def Let_def)

lemma second_quiz_last:
  "streak (fst (last second_quiz)) = 1" "bestStreak (fst (last second_quiz)) = 3"
  unfolding second_quiz_def reloaded second_start
  by (simp_all add: demo_state_def initial_state_def checkAnswer_def updateStreak_def
       saveSettings_def nextQuestion_def Let_def)


text \<open>
  Claim C10. The session that \<open>finishQuiz\<close> appends to the store has as \<open>bestStreak\<close> the
  maximum of the current streak and the best streak of the state, which \<open>resetQuizState\<close>
  keeps and \<open>loadSettings\<close> takes from the stored settings. In the two quizzes above the
  streaks of the first are 1, 2, 3 and those of the second 1, 0, 1, and both stored sessions
  have the best streak 3.
\<close>

theorem stored_bestStreak_is_lifetime_best:
  "session_bestStreak (last (fst (snd (finishQuiz now st sessions stats))))
     = max (streak st) (bestStreak st)
   \<and> fst (snd (finishQuiz now st sessions stats))
       = sessions @ [last (fst (snd (finishQuiz now st sessions stats)))]
   \<and> bestStreak (resetQuizState now st) = bestStreak st
   \<and> bestStreak (loadSettings (Some parsed) st) = set_bestStreak parsed
   \<and> map (\<lambda>w. streak (fst w)) first_quiz = [1, 2, 3]
   \<and> map (\<lambda>w. streak (fst w)) second_quiz = [1, 0, 1]
   \<and> map session_bestStreak second_sessions = [3, 3]"
proof (intro conjI)
  show "session_bestStreak (last (fst (snd (finishQuiz now st sessions stats))))
      = max (streak st) (bestStreak st)"
    by (rule finishQuiz_bestStreak)
  show "fst (snd (finishQuiz now st sessions stats))
      = sessions @ [last (fst (snd (finishQuiz now st sessions stats)))]"
    by (rule finishQuiz_appends)
  show "bestStreak (resetQuizState now st) = bestStreak st"
    by (rule resetQuizState_bestStreak)
  show "bestStreak (loadSettings (Some parsed) st) = set_bestStreak parsed"
    by (rule loadSettings_bestStreak)
  show "map (\<lambda>w. streak (fst w)) first_quiz = [1, 2, 3]"
    by (rule first_quiz_streaks)
  show "map (\<lambda>w. streak (fst w)) second_quiz = [1, 0, 1]"
    by (rule second_quiz_streaks)
  have "map session_bestStreak first_sessions = [3]"
    unfolding first_sessions_def finishQuiz_sessions by (simp add: first_quiz_last)
  then show "map session_bestStreak second_sessions = [3, 3]"
    unfolding second_sessions_def finishQuiz_sessions by (simp add: second_quiz_last)
qed

theorem stored_bestStreak_is_lifetime_best_witness:
  "session_bestStreak (last second_sessions) = 3
   \<and> list_all (\<lambda>s. s < session_bestStreak (last second_sessions))
         (map (\<lambda>w. streak (fst w)) second_quiz)"
proof -
  note t = stored_bestStreak_is_lifetime_best
    [where now = 4000 and st = "fst (last second_quiz)" and sessions = first_sessions
      and stats = Map.empty]
  from t have "session_bestStreak (last second_sessions)
      = max (streak (fst (last second_quiz))) (bestStreak (fst (last second_quiz)))"
    unfolding second_sessions_def by (rule conjunct1)
  then have b: "session_bestStreak (last second_sessions) = 3"
    by (simp add: second_quiz_last)
  from t have "map (\<lambda>w. streak (fst w)) second_quiz = [1, 0, 1]"
    by blast
  with b show ?thesis by simp
qed

end
